theory Spec2Isabelle
  imports Main "HOL-Library.Word" "HOL-Library.AList"
begin

section \<open>JavaScript values\<close>

text \<open>
  A JavaScript string is a sequence of 16-bit code units. String literals of the
  script are ASCII and are written with \<open>js\<close>.
\<close>

type_synonym code_unit = "16 word"
type_synonym jsstring = "code_unit list"

definition js :: "string \<Rightarrow> jsstring" where
  "js s = map of_char s"

text \<open>
  The script never computes with numbers: it only reads them (\<open>parseFloat\<close>,
  \<open>JSON.parse\<close>) and prints them (template literals, \<open>JSON.stringify\<close>). A finite
  number is therefore kept as the decimal \<open>Dec neg m e\<close>, standing for
  \<open>(-1)^neg * m * 10^e\<close>; the form without trailing zeros in \<open>m\<close> is the
  shortest decimal, which is what \<open>Number::toString\<close> prints.
\<close>

datatype jsnum = NaN | Infinity bool | Dec bool nat int

datatype json =
    JNull
  | JBool bool
  | JNum jsnum
  | JStr jsstring
  | JArr "json list"
  | JObj "(jsstring \<times> json) list"

datatype js_error = TypeError | SyntaxError | QuotaExceededError

datatype 'a completion = Normal 'a | Throw js_error

subsection \<open>Strings: \<open>trim\<close> and truthiness\<close>

definition isWhiteSpace :: "code_unit \<Rightarrow> bool" where
  "isWhiteSpace c \<longleftrightarrow>
     (0x9 \<le> c \<and> c \<le> 0xD) \<or> c = 0x20 \<or> c = 0xA0 \<or> c = 0x1680 \<or>
     (0x2000 \<le> c \<and> c \<le> 0x200A) \<or> c = 0x2028 \<or> c = 0x2029 \<or> c = 0x202F \<or>
     c = 0x205F \<or> c = 0x3000 \<or> c = 0xFEFF"

definition trim :: "jsstring \<Rightarrow> jsstring" where
  "trim s = rev (dropWhile isWhiteSpace (rev (dropWhile isWhiteSpace s)))"

definition truthy :: "jsstring \<Rightarrow> bool" where
  "truthy s \<longleftrightarrow> s \<noteq> []"

text \<open>\<open>v || ''\<close> on a string \<open>v\<close>.\<close>

definition or_empty :: "jsstring \<Rightarrow> jsstring" where
  "or_empty v = (if truthy v then v else js [])"

subsection \<open>Numbers: \<open>Number::toString\<close> and \<open>parseFloat\<close>\<close>

fun digits :: "nat \<Rightarrow> nat list" where
  "digits n = (if n < 10 then [n] else digits (n div 10) @ [n mod 10])"

declare digits.simps [simp del]

definition digit :: "nat \<Rightarrow> code_unit" where
  "digit d = of_nat (48 + d)"

definition decimal :: "nat \<Rightarrow> jsstring" where
  "decimal n = map digit (digits n)"

definition Number_toString :: "jsnum \<Rightarrow> jsstring" where
  "Number_toString x =
     (case x of
        NaN \<Rightarrow> js ''NaN''
      | Infinity neg \<Rightarrow> (if neg then js ''-Infinity'' else js ''Infinity'')
      | Dec neg m e \<Rightarrow>
          if m = 0 then js ''0''
          else (if neg then js ''-'' else []) @
            (let s = decimal m; k = int (length s); n = k + e in
             if k \<le> n \<and> n \<le> 21 then s @ replicate (nat (n - k)) (digit 0)
             else if 0 < n \<and> n \<le> 21 then take (nat n) s @ js ''.'' @ drop (nat n) s
             else if - 6 < n \<and> n \<le> 0 then js ''0.'' @ replicate (nat (- n)) (digit 0) @ s
             else
               (let ex = (if n - 1 < 0 then js ''-'' else js ''+'') @ decimal (nat \<bar>n - 1\<bar>)
                in if k = 1 then s @ js ''e'' @ ex
                   else take 1 s @ js ''.'' @ drop 1 s @ js ''e'' @ ex)))"

definition is_digit :: "code_unit \<Rightarrow> bool" where
  "is_digit c \<longleftrightarrow> 0x30 \<le> c \<and> c \<le> 0x39"

definition digit_val :: "code_unit \<Rightarrow> nat" where
  "digit_val c = unat c - 48"

definition digits_val :: "jsstring \<Rightarrow> nat" where
  "digits_val ds = foldl (\<lambda>a c. 10 * a + digit_val c) 0 ds"

function strip10 :: "nat \<Rightarrow> int \<Rightarrow> nat \<times> int" where
  "strip10 m e =
     (if m = 0 then (0, 0)
      else if m mod 10 = 0 then strip10 (m div 10) (e + 1)
      else (m, e))"
  by pat_completeness auto
termination
  by (relation "measure fst") auto

declare strip10.simps [simp del]

text \<open>
  The number with integer digits \<open>ds\<close>, fraction digits \<open>fs\<close> and exponent \<open>ex\<close>, as the
  exact decimal in shortest form. The script's number is the double nearest to it;
  the two agree for a decimal of at most 15 significant digits inside the range of the
  normal doubles. The rounding of a longer decimal and the overflow to \<open>Infinity\<close> are
  not part of this model, and no property below is stated for such numbers.
\<close>

definition mk_number :: "bool \<Rightarrow> jsstring \<Rightarrow> jsstring \<Rightarrow> int \<Rightarrow> jsnum" where
  "mk_number neg ds fs ex =
     (case strip10 (digits_val (ds @ fs)) (ex - int (length fs)) of
        (m, e) \<Rightarrow> Dec neg m e)"

text \<open>
  An exponent part \<open>e[+-]digits\<close> at the head of the input: its value and the rest.
  Without a well-formed exponent part nothing is consumed.
\<close>

definition scan_exponent :: "jsstring \<Rightarrow> int \<times> jsstring" where
  "scan_exponent s =
     (case s of
        [] \<Rightarrow> (0, s)
      | c # r \<Rightarrow>
          if c = 0x65 \<or> c = 0x45 then
            (let neg = (case r of [] \<Rightarrow> False | d # _ \<Rightarrow> d = 0x2D);
                 r1 = (case r of [] \<Rightarrow> r | d # r' \<Rightarrow> if d = 0x2D \<or> d = 0x2B then r' else r);
                 ds = takeWhile is_digit r1
             in if ds = [] then (0, s)
                else ((if neg then - int (digits_val ds) else int (digits_val ds)),
                      dropWhile is_digit r1))
          else (0, s))"


subsection \<open>\<open>JSON.stringify\<close>\<close>

definition hexdigit :: "nat \<Rightarrow> code_unit" where
  "hexdigit d = (if d < 10 then of_nat (48 + d) else of_nat (87 + d))"

definition unicode_escape :: "code_unit \<Rightarrow> jsstring" where
  "unicode_escape c =
     (let n = unat c
      in [0x5C, 0x75, hexdigit (n div 4096), hexdigit (n div 256 mod 16),
          hexdigit (n div 16 mod 16), hexdigit (n mod 16)])"

definition is_high_surrogate :: "code_unit \<Rightarrow> bool" where
  "is_high_surrogate c \<longleftrightarrow> 0xD800 \<le> c \<and> c \<le> 0xDBFF"

definition is_low_surrogate :: "code_unit \<Rightarrow> bool" where
  "is_low_surrogate c \<longleftrightarrow> 0xDC00 \<le> c \<and> c \<le> 0xDFFF"

definition quote_unit :: "code_unit \<Rightarrow> jsstring" where
  "quote_unit c =
     (if c = 0x08 then [0x5C, 0x62]
      else if c = 0x09 then [0x5C, 0x74]
      else if c = 0x0A then [0x5C, 0x6E]
      else if c = 0x0C then [0x5C, 0x66]
      else if c = 0x0D then [0x5C, 0x72]
      else if c = 0x22 then [0x5C, 0x22]
      else if c = 0x5C then [0x5C, 0x5C]
      else if c < 0x20 then unicode_escape c
      else [c])"

fun quote_units :: "jsstring \<Rightarrow> jsstring" where
  "quote_units [] = []"
| "quote_units [c] =
     (if is_high_surrogate c \<or> is_low_surrogate c then unicode_escape c else quote_unit c)"
| "quote_units (c # d # cs) =
     (if is_high_surrogate c then
        (if is_low_surrogate d then c # d # quote_units cs
         else unicode_escape c @ quote_units (d # cs))
      else if is_low_surrogate c then unicode_escape c @ quote_units (d # cs)
      else quote_unit c @ quote_units (d # cs))"

definition QuoteJSONString :: "jsstring \<Rightarrow> jsstring" where
  "QuoteJSONString s = [0x22] @ quote_units s @ [0x22]"

fun JSON_stringify :: "json \<Rightarrow> jsstring"
  and stringify_elements :: "json list \<Rightarrow> jsstring"
  and stringify_members :: "(jsstring \<times> json) list \<Rightarrow> jsstring"
where
  "JSON_stringify JNull = js ''null''"
| "JSON_stringify (JBool b) = (if b then js ''true'' else js ''false'')"
| "JSON_stringify (JNum x) =
     (case x of Dec neg m e \<Rightarrow> Number_toString x | _ \<Rightarrow> js ''null'')"
| "JSON_stringify (JStr s) = QuoteJSONString s"
| "JSON_stringify (JArr vs) = js ''['' @ stringify_elements vs @ js '']''"
| "JSON_stringify (JObj kvs) = js ''{'' @ stringify_members kvs @ js ''}''"
| "stringify_elements [] = []"
| "stringify_elements [v] = JSON_stringify v"
| "stringify_elements (v # w # vs) =
     JSON_stringify v @ js '','' @ stringify_elements (w # vs)"
| "stringify_members [] = []"
| "stringify_members [(k, v)] = QuoteJSONString k @ js '':'' @ JSON_stringify v"
| "stringify_members ((k, v) # kv # kvs) =
     QuoteJSONString k @ js '':'' @ JSON_stringify v @ js '','' @ stringify_members (kv # kvs)"

subsection \<open>\<open>JSON.parse\<close>\<close>

definition is_ws :: "code_unit \<Rightarrow> bool" where
  "is_ws c \<longleftrightarrow> c = 0x20 \<or> c = 0x9 \<or> c = 0xA \<or> c = 0xD"

definition skip_ws :: "jsstring \<Rightarrow> jsstring" where
  "skip_ws s = dropWhile is_ws s"

definition hexval :: "code_unit \<Rightarrow> nat option" where
  "hexval c =
     (if 0x30 \<le> c \<and> c \<le> 0x39 then Some (unat c - 48)
      else if 0x61 \<le> c \<and> c \<le> 0x66 then Some (unat c - 87)
      else if 0x41 \<le> c \<and> c \<le> 0x46 then Some (unat c - 55)
      else None)"

definition unescape :: "code_unit \<Rightarrow> code_unit option" where
  "unescape e =
     (if e = 0x22 \<or> e = 0x5C \<or> e = 0x2F then Some e
      else if e = 0x62 then Some 0x08
      else if e = 0x66 then Some 0x0C
      else if e = 0x6E then Some 0x0A
      else if e = 0x72 then Some 0x0D
      else if e = 0x74 then Some 0x09
      else None)"

definition hex4 :: "nat \<Rightarrow> nat \<Rightarrow> nat \<Rightarrow> nat \<Rightarrow> code_unit" where
  "hex4 a b c d = of_nat (((a * 16 + b) * 16 + c) * 16 + d)"

text \<open>The characters of a string up to its closing quote, and what follows the quote.\<close>

fun parse_string :: "jsstring \<Rightarrow> (jsstring \<times> jsstring) option" where
  "parse_string [] = None"
| "parse_string (c # r) =
     (if c = 0x22 then Some ([], r)
      else if c = 0x5C then
        (case r of
           [] \<Rightarrow> None
         | e # r1 \<Rightarrow>
             if e = 0x75 then
               (case r1 of
                  h1 # h2 # h3 # h4 # r2 \<Rightarrow>
                    (case (hexval h1, hexval h2, hexval h3, hexval h4) of
                       (Some a, Some b, Some c, Some d) \<Rightarrow>
                         map_option (\<lambda>(s, r'). (hex4 a b c d # s, r')) (parse_string r2)
                     | _ \<Rightarrow> None)
                | _ \<Rightarrow> None)
             else
               (case unescape e of
                  None \<Rightarrow> None
                | Some u \<Rightarrow> map_option (\<lambda>(s, r'). (u # s, r')) (parse_string r1)))
      else if c < 0x20 then None
      else map_option (\<lambda>(s, r'). (c # s, r')) (parse_string r))"

text \<open>
  A JSON number: an optional minus, an integer part without a leading zero, an
  optional fraction with at least one digit, an optional exponent with at least one
  digit. The value is kept exactly; it is not rounded to a double.
\<close>

definition number_body :: "bool \<Rightarrow> jsstring \<Rightarrow> (jsnum \<times> jsstring) option" where
  "number_body neg s1 =
     (let ds = (case s1 of [] \<Rightarrow> [] | c # _ \<Rightarrow> if c = 0x30 then [c] else takeWhile is_digit s1);
          r1 = drop (length ds) s1;
          dot = (case r1 of [] \<Rightarrow> False | c # _ \<Rightarrow> c = 0x2E);
          fs = (if dot then takeWhile is_digit (tl r1) else []);
          r2 = (if dot then dropWhile is_digit (tl r1) else r1);
          ex = (case r2 of [] \<Rightarrow> False | c # _ \<Rightarrow> c = 0x65 \<or> c = 0x45);
          r3 = snd (scan_exponent r2)
      in if ds = [] \<or> (dot \<and> fs = []) \<or> (ex \<and> r3 = r2) then None
         else Some (mk_number neg ds fs (fst (scan_exponent r2)), r3))"

definition parse_number :: "jsstring \<Rightarrow> (jsnum \<times> jsstring) option" where
  "parse_number s =
     (case s of
        [] \<Rightarrow> None
      | c # r \<Rightarrow> if c = 0x2D then number_body True r else number_body False s)"

text \<open>
  A value at the head of the input, and the rest of the input. A later member with
  the key of an earlier one replaces its value. The tests on lengths are there for
  the recursion to be well-founded: a value that is read takes at least one code unit.
\<close>

function parse_value :: "jsstring \<Rightarrow> (json \<times> jsstring) option"
  and parse_elements :: "json list \<Rightarrow> jsstring \<Rightarrow> (json \<times> jsstring) option"
  and parse_members :: "(jsstring \<times> json) list \<Rightarrow> jsstring \<Rightarrow> (json \<times> jsstring) option"
where
  "parse_value s =
     (case skip_ws s of
        [] \<Rightarrow> None
      | c # r \<Rightarrow>
          if c = 0x7B then
            (case skip_ws r of
               [] \<Rightarrow> None
             | d # r' \<Rightarrow> if d = 0x7D then Some (JObj [], r') else parse_members [] r)
          else if c = 0x5B then
            (case skip_ws r of
               [] \<Rightarrow> None
             | d # r' \<Rightarrow> if d = 0x5D then Some (JArr [], r') else parse_elements [] r)
          else if c = 0x22 then map_option (\<lambda>(str, r'). (JStr str, r')) (parse_string r)
          else if take 4 (c # r) = js ''true'' then Some (JBool True, drop 4 (c # r))
          else if take 5 (c # r) = js ''false'' then Some (JBool False, drop 5 (c # r))
          else if take 4 (c # r) = js ''null'' then Some (JNull, drop 4 (c # r))
          else map_option (\<lambda>(x, r'). (JNum x, r')) (parse_number (c # r)))"
| "parse_elements acc s =
     (case parse_value s of
        None \<Rightarrow> None
      | Some (v, r) \<Rightarrow>
          if length r < length s then
            (case skip_ws r of
               [] \<Rightarrow> None
             | c # r' \<Rightarrow>
                 if c = 0x2C then parse_elements (acc @ [v]) r'
                 else if c = 0x5D then Some (JArr (acc @ [v]), r')
                 else None)
          else None)"
| "parse_members acc s =
     (case skip_ws s of
        [] \<Rightarrow> None
      | q # r \<Rightarrow>
          if q = 0x22 then
            (case parse_string r of
               None \<Rightarrow> None
             | Some (k, r1) \<Rightarrow>
                 (case skip_ws r1 of
                    [] \<Rightarrow> None
                  | c # r2 \<Rightarrow>
                      if c = 0x3A \<and> length r2 < length s then
                        (case parse_value r2 of
                           None \<Rightarrow> None
                         | Some (v, r3) \<Rightarrow>
                             if length r3 < length r2 then
                               (case skip_ws r3 of
                                  [] \<Rightarrow> None
                                | d # r4 \<Rightarrow>
                                    if d = 0x2C then parse_members (AList.update k v acc) r4
                                    else if d = 0x7D then Some (JObj (AList.update k v acc), r4)
                                    else None)
                             else None)
                      else None))
          else None)"
  by pat_completeness auto
termination
proof -
  have dw: "length r < length xs" if "dropWhile P xs = c # r"
    for P :: "code_unit \<Rightarrow> bool" and xs c r
    using length_dropWhile_le [of P xs] that by simp
  show ?thesis
    by (relation "measure (\<lambda>x. case x of Inl s \<Rightarrow> 2 * length s
                                     | Inr (Inl (acc, s)) \<Rightarrow> 2 * length s + 1
                                     | Inr (Inr (acc, s)) \<Rightarrow> 2 * length s + 1)")
       (auto simp: skip_ws_def dest: dw)
qed

declare parse_value.simps [simp del] parse_elements.simps [simp del] parse_members.simps [simp del]

definition JSON_parse :: "jsstring \<Rightarrow> js_error + json" where
  "JSON_parse s =
     (case parse_value s of
        None \<Rightarrow> Inl SyntaxError
      | Some (v, r) \<Rightarrow> if skip_ws r = [] then Inr v else Inl SyntaxError)"

section \<open>The host: local storage and console\<close>

text \<open>
  Local storage holds string items under string keys and refuses a write that would
  take the stored keys and values beyond its quota (a quota of 0 is a store that
  refuses every write). \<open>getItem\<close> answers \<open>null\<close>, here \<open>None\<close>, for a missing key.
\<close>

record storage =
  items :: "(jsstring \<times> jsstring) list"
  quota :: nat

definition used :: "(jsstring \<times> jsstring) list \<Rightarrow> nat" where
  "used kvs = sum_list (map (\<lambda>kv. length (fst kv) + length (snd kv)) kvs)"

definition getItem :: "jsstring \<Rightarrow> storage \<Rightarrow> jsstring option" where
  "getItem k st = map_of (items st) k"

definition setItem :: "jsstring \<Rightarrow> jsstring \<Rightarrow> storage \<Rightarrow> js_error + storage" where
  "setItem k v st =
     (let kvs = AList.update k v (items st)
      in if used kvs \<le> quota st then Inr (st\<lparr>items := kvs\<rparr>) else Inl QuotaExceededError)"

text \<open>One \<open>console.error(message, err)\<close> call.\<close>

type_synonym log_entry = "jsstring \<times> js_error"

section \<open>The application state\<close>

record task =
  text' :: jsstring
  completed :: bool

record category =
  title :: jsstring
  tasks :: "task list"

record app_state =
  names :: jsstring
  tagline :: jsstring
  background :: jsstring
  overlay :: jsnum
  sections :: "category list"

definition defaultData :: app_state where
  "defaultData =
     \<lparr> names = js ''You & Me'',
       tagline = js ''Adventures, dreams and memories together'',
       background = js ''images/cosmos.jpg'',
       overlay = Dec False 6 (- 1),
       sections =
         [ \<lparr> title = js ''Travel Adventures'',
             tasks =
               [ \<lparr> text' = js ''Visit Paris, France'', completed = False \<rparr>,
                 \<lparr> text' = js ''Road trip across Iceland'', completed = False \<rparr>,
                 \<lparr> text' = js ''See the Northern Lights together'', completed = False \<rparr>,
                 \<lparr> text' = js ''Tokyo cherry blossoms'', completed = False \<rparr> ] \<rparr>,
           \<lparr> title = js ''Personal Goals'',
             tasks =
               [ \<lparr> text' = js ''Learn Spanish together'', completed = False \<rparr>,
                 \<lparr> text' = js ''Cook 50 new recipes'', completed = False \<rparr>,
                 \<lparr> text' = js ''Run a 5K together'', completed = False \<rparr>,
                 \<lparr> text' = js ''Read 12 books together'', completed = False \<rparr> ] \<rparr> ] \<rparr>"

text \<open>The object graph of a state as the JSON value that \<open>JSON.stringify\<close> walks.\<close>

definition task_json :: "task \<Rightarrow> json" where
  "task_json t = JObj [(js ''text'', JStr (text' t)), (js ''completed'', JBool (completed t))]"

definition category_json :: "category \<Rightarrow> json" where
  "category_json c =
     JObj [(js ''title'', JStr (title c)), (js ''tasks'', JArr (map task_json (tasks c)))]"

definition state_json :: "app_state \<Rightarrow> json" where
  "state_json S =
     JObj [(js ''names'', JStr (names S)),
           (js ''tagline'', JStr (tagline S)),
           (js ''background'', JStr (background S)),
           (js ''overlay'', JNum (overlay S)),
           (js ''sections'', JArr (map category_json (sections S)))]"

section \<open>The page\<close>

text \<open>
  Event handlers are closures; each is kept as a tag with the variables it captured
  (the category index \<open>idx\<close> and the task position \<open>taskIndex\<close>).
\<close>

datatype handler =
    ToggleClick
  | NamesChange
  | TaglineChange
  | FileChange
  | OverlayInput
  | TitleChange nat
  | CheckboxChange nat nat
  | DeleteClick nat nat
  | AddClick nat

datatype pvalue = PStr jsstring | PBool bool

datatype node =
  Element (tag: jsstring)
          (props: "(string \<times> pvalue) list")
          (style: "(string \<times> jsstring) list")
          (listeners: "(string \<times> handler) list")
          (children: "node list")

definition createElement :: "jsstring \<Rightarrow> node" where
  "createElement t = Element t [] [] [] []"

definition set_prop :: "string \<Rightarrow> pvalue \<Rightarrow> node \<Rightarrow> node" where
  "set_prop k v n =
     Element (tag n) (AList.update k v (props n)) (style n) (listeners n) (children n)"

definition set_style :: "string \<Rightarrow> jsstring \<Rightarrow> node \<Rightarrow> node" where
  "set_style k v n =
     Element (tag n) (props n) (AList.update k v (style n)) (listeners n) (children n)"

definition set_on :: "string \<Rightarrow> handler \<Rightarrow> node \<Rightarrow> node" where
  "set_on k h n =
     Element (tag n) (props n) (style n) (AList.update k h (listeners n)) (children n)"

definition appendChild :: "node \<Rightarrow> node \<Rightarrow> node" where
  "appendChild c n = Element (tag n) (props n) (style n) (listeners n) (children n @ [c])"

definition clear_children :: "node \<Rightarrow> node" where
  "clear_children n = Element (tag n) (props n) (style n) (listeners n) []"

definition className :: "node \<Rightarrow> jsstring" where
  "className n = (case map_of (props n) ''className'' of Some (PStr s) \<Rightarrow> s | _ \<Rightarrow> [])"

definition classList_add :: "jsstring \<Rightarrow> node \<Rightarrow> node" where
  "classList_add c n =
     set_prop ''className'' (PStr (if className n = [] then c else className n @ js '' '' @ c)) n"

text \<open>An element under construction: the assignments of the script, in their order.\<close>

definition build :: "node \<Rightarrow> (node \<Rightarrow> node) list \<Rightarrow> node" where
  "build n fs = foldl (\<lambda>m f. f m) n fs"

text \<open>The class tokens of a \<open>className\<close>, separated by ASCII white space.\<close>

definition is_space :: "code_unit \<Rightarrow> bool" where
  "is_space c \<longleftrightarrow> c = 0x20 \<or> c = 0x9 \<or> c = 0xA \<or> c = 0xC \<or> c = 0xD"

fun tokens :: "jsstring \<Rightarrow> jsstring \<Rightarrow> jsstring list" where
  "tokens acc [] = (if acc = [] then [] else [acc])"
| "tokens acc (c # cs) =
     (if is_space c then (if acc = [] then tokens [] cs else acc # tokens [] cs)
      else tokens (acc @ [c]) cs)"

definition has_class :: "jsstring \<Rightarrow> node \<Rightarrow> bool" where
  "has_class c n \<longleftrightarrow> c \<in> set (tokens [] (className n))"

definition has_id :: "jsstring \<Rightarrow> node \<Rightarrow> bool" where
  "has_id i n \<longleftrightarrow> map_of (props n) ''id'' = Some (PStr i)"

text \<open>
  Modelled from the spec: the host page (its HTML is not among the sources). The
  spec's rendering surface provides a single root mount element and page-level
  background styling; the page is the style of \<open>body\<close> and the list of its child
  elements, the mount element \<open>#app\<close> and the darkness overlay being children of
  \<open>body\<close>.
\<close>

record page =
  body_style :: "(string \<times> jsstring) list"
  body_children :: "node list"

fun find_index :: "('a \<Rightarrow> bool) \<Rightarrow> 'a list \<Rightarrow> nat option" where
  "find_index P [] = None"
| "find_index P (x # xs) = (if P x then Some 0 else map_option Suc (find_index P xs))"

definition getElementById :: "jsstring \<Rightarrow> page \<Rightarrow> nat option" where
  "getElementById i doc = find_index (has_id i) (body_children doc)"

definition querySelector_class :: "jsstring \<Rightarrow> page \<Rightarrow> nat option" where
  "querySelector_class c doc = find_index (has_class c) (body_children doc)"

definition set_body_style :: "string \<Rightarrow> jsstring \<Rightarrow> page \<Rightarrow> page" where
  "set_body_style k v doc = doc\<lparr>body_style := AList.update k v (body_style doc)\<rparr>"

definition update_child :: "nat \<Rightarrow> (node \<Rightarrow> node) \<Rightarrow> page \<Rightarrow> page" where
  "update_child i f doc =
     doc\<lparr>body_children := (body_children doc)[i := f (body_children doc ! i)]\<rparr>"

definition remove_child :: "nat \<Rightarrow> page \<Rightarrow> page" where
  "remove_child i doc =
     doc\<lparr>body_children := take i (body_children doc) @ drop (Suc i) (body_children doc)\<rparr>"

definition insert_first :: "node \<Rightarrow> page \<Rightarrow> page" where
  "insert_first n doc = doc\<lparr>body_children := n # body_children doc\<rparr>"

text \<open>
  The variable \<open>app\<close> of \<open>render\<close> is a reference to the mount element: its position
  among the children of \<open>body\<close>, or \<open>None\<close> once the element has left the page (what
  is appended to it then is not on the page).
\<close>

definition after_remove :: "nat \<Rightarrow> nat option \<Rightarrow> nat option" where
  "after_remove j h =
     (case h of
        None \<Rightarrow> None
      | Some a \<Rightarrow> if j = a then None else if j < a then Some (a - 1) else Some a)"

definition append_to :: "nat option \<Rightarrow> node \<Rightarrow> page \<Rightarrow> page" where
  "append_to h c doc = (case h of None \<Rightarrow> doc | Some a \<Rightarrow> update_child a (appendChild c) doc)"

section \<open>The script\<close>

text \<open>
  The global variables \<open>data\<close> and \<open>editMode\<close> of the script, and the parts of the
  host it reads and writes. A function of the script takes the world and returns it
  updated, with its completion where it can throw: what it did before throwing stays
  done.
\<close>

record world =
  data :: app_state
  editMode :: bool
  localStorage :: storage
  console :: "log_entry list"
  document :: page

subsection \<open>\<open>getData\<close>\<close>

text \<open>
  \<open>getData\<close> runs before \<open>data\<close> has a value; it reads local storage and may write to
  the console. What it returns is whatever JSON value was stored: its shape is not
  checked. The copy of \<open>defaultData\<close> is made outside the \<open>try\<close> block.
\<close>

definition default_copy :: "json completion" where
  "default_copy =
     (case JSON_parse (JSON_stringify (state_json defaultData)) of
        Inr v \<Rightarrow> Normal v
      | Inl err \<Rightarrow> Throw err)"

definition getData :: "storage \<Rightarrow> log_entry list \<Rightarrow> json completion \<times> log_entry list" where
  "getData st con =
     (case getItem (js ''coupleQuestData'') st of
        None \<Rightarrow> (default_copy, con)
      | Some saved \<Rightarrow>
          if truthy saved then
            (case JSON_parse saved of
               Inr v \<Rightarrow> (Normal v, con)
             | Inl err \<Rightarrow> (default_copy, con @ [(js ''Failed to parse stored data:'', err)]))
          else (default_copy, con))"

subsection \<open>\<open>saveData\<close>\<close>

definition saveData :: "world \<Rightarrow> world" where
  "saveData w =
     (case setItem (js ''coupleQuestData'') (JSON_stringify (state_json (data w))) (localStorage w) of
        Inr st \<Rightarrow> w\<lparr>localStorage := st\<rparr>
      | Inl err \<Rightarrow> w\<lparr>console := console w @ [(js ''Failed to save data:'', err)]\<rparr>)"

subsection \<open>\<open>createCategorySection\<close>\<close>

text \<open>One pass of the \<open>forEach\<close> over \<open>sectionData.tasks\<close>: the row of a task.\<close>

definition quest_item :: "bool \<Rightarrow> nat \<Rightarrow> nat \<Rightarrow> task \<Rightarrow> node" where
  "quest_item em idx taskIndex t =
     (let item = build (createElement (js ''div''))
                   ([set_prop ''className'' (PStr (js ''quest-item''))] @
                    (if completed t then [classList_add (js ''completed'')] else []));
          checkbox = build (createElement (js ''input''))
                       [set_prop ''type'' (PStr (js ''checkbox'')),
                        set_prop ''checked'' (PBool (completed t)),
                        set_on ''change'' (CheckboxChange idx taskIndex)];
          span = build (createElement (js ''span''))
                   [set_prop ''textContent'' (PStr (text' t))];
          label = build (createElement (js ''label''))
                    [appendChild checkbox, appendChild span];
          delBtn = build (createElement (js ''button''))
                     [set_prop ''className'' (PStr (js ''delete-btn'')),
                      set_prop ''textContent'' (PStr (js ''Delete'')),
                      set_on ''click'' (DeleteClick idx taskIndex)]
      in build item ([appendChild label] @ (if em then [appendChild delBtn] else [])))"

text \<open>
  \<open>data.sections[idx]\<close> is \<open>undefined\<close> when there is no such category, and reading
  its \<open>title\<close> throws a \<open>TypeError\<close>; only detached elements exist by then.
\<close>

definition createCategorySection :: "app_state \<Rightarrow> bool \<Rightarrow> nat \<Rightarrow> node completion" where
  "createCategorySection S em idx =
     (if idx < length (sections S) then
        (let sectionData = sections S ! idx;
             container = build (createElement (js ''div''))
                           [set_style ''width'' (js ''100%''),
                            set_style ''maxWidth'' (js ''600px''),
                            set_style ''display'' (js ''flex''),
                            set_style ''flexDirection'' (js ''column''),
                            set_style ''alignItems'' (js ''center''),
                            set_style ''marginTop'' (js ''1rem'')];
             titleInput = build (createElement (js ''input''))
                            [set_prop ''type'' (PStr (js ''text'')),
                             set_prop ''value'' (PStr (title sectionData)),
                             set_on ''change'' (TitleChange idx),
                             set_prop ''placeholder'' (PStr (js ''Category name''))];
             titleEl = build (createElement (js ''h2''))
                         [set_prop ''className'' (PStr (js ''category-title'')),
                          if em then appendChild titleInput
                          else set_prop ''textContent'' (PStr (title sectionData))];
             list = build (createElement (js ''div''))
                      ([set_prop ''className'' (PStr (js ''quest-list''))] @
                       map (\<lambda>(taskIndex, t). appendChild (quest_item em idx taskIndex t))
                         (enumerate 0 (tasks sectionData)));
             input = build (createElement (js ''input''))
                       [set_prop ''type'' (PStr (js ''text'')),
                        set_prop ''placeholder'' (PStr (js ''Add new quest...''))];
             addBtn = build (createElement (js ''button''))
                        [set_prop ''textContent'' (PStr (js ''Add'')),
                         set_on ''click'' (AddClick idx)];
             addContainer = build (createElement (js ''div''))
                              [set_prop ''className'' (PStr (js ''add-container'')),
                               appendChild input,
                               appendChild addBtn]
         in Normal (build container
                      ([appendChild titleEl, appendChild list] @
                       (if em then [appendChild addContainer] else []))))
      else Throw TypeError)"

subsection \<open>\<open>render\<close>\<close>

definition rgba :: "jsnum \<Rightarrow> jsstring" where
  "rgba x = js ''rgba(0, 0, 0, '' @ Number_toString x @ js '')''"

definition overlay_el :: "app_state \<Rightarrow> node" where
  "overlay_el S =
     build (createElement (js ''div''))
       [set_prop ''className'' (PStr (js ''overlay'')),
        set_style ''backgroundColor'' (rgba (overlay S))]"

definition toggleBtn_el :: "bool \<Rightarrow> node" where
  "toggleBtn_el em =
     build (createElement (js ''button''))
       [set_prop ''className'' (PStr (js ''toggle-btn'')),
        set_prop ''textContent'' (PStr (if em then js ''Done'' else js ''Edit'')),
        set_on ''click'' ToggleClick]"

definition hero_el :: "app_state \<Rightarrow> bool \<Rightarrow> node" where
  "hero_el S em =
     (let namesInput = build (createElement (js ''input''))
                         [set_prop ''type'' (PStr (js ''text'')),
                          set_prop ''value'' (PStr (names S)),
                          set_on ''change'' NamesChange,
                          set_prop ''placeholder'' (PStr (js ''Enter your names''))];
          namesEl = build (createElement (js ''h1''))
                      [set_prop ''textContent'' (PStr (names S))];
          taglineInput = build (createElement (js ''input''))
                           [set_prop ''type'' (PStr (js ''text'')),
                            set_prop ''value'' (PStr (tagline S)),
                            set_on ''change'' TaglineChange,
                            set_prop ''placeholder'' (PStr (js ''Enter your tagline'')),
                            set_style ''marginTop'' (js ''0.5rem'')];
          taglineEl = build (createElement (js ''p''))
                        [set_prop ''className'' (PStr (js ''tagline'')),
                         set_prop ''textContent'' (PStr (tagline S))];
          fileInput = build (createElement (js ''input''))
                        [set_prop ''type'' (PStr (js ''file'')),
                         set_prop ''accept'' (PStr (js ''image/*'')),
                         set_on ''change'' FileChange];
          rangeLabel = build (createElement (js ''label''))
                         [set_prop ''textContent'' (PStr (js ''Overlay darkness'')),
                          set_prop ''htmlFor'' (PStr (js ''overlay-range''))];
          rangeInput = build (createElement (js ''input''))
                         [set_prop ''type'' (PStr (js ''range'')),
                          set_prop ''min'' (PStr (js ''0'')),
                          set_prop ''max'' (PStr (js ''0.9'')),
                          set_prop ''step'' (PStr (js ''0.05'')),
                          set_prop ''value'' (PStr (Number_toString (overlay S))),
                          set_prop ''id'' (PStr (js ''overlay-range'')),
                          set_on ''input'' OverlayInput];
          rangeContainer = build (createElement (js ''div''))
                             [set_prop ''className'' (PStr (js ''range-container'')),
                              appendChild rangeLabel,
                              appendChild rangeInput];
          editContainer = build (createElement (js ''div''))
                            [set_prop ''className'' (PStr (js ''edit-container'')),
                             appendChild fileInput,
                             appendChild rangeContainer]
      in build (createElement (js ''div''))
           ([set_style ''textAlign'' (js ''center''),
             set_style ''width'' (js ''100%''),
             set_style ''maxWidth'' (js ''600px''),
             appendChild (if em then namesInput else namesEl),
             appendChild (if em then taglineInput else taglineEl)] @
            (if em then [appendChild editContainer] else [])))"

text \<open>
  \<open>render\<close> on the page, in the two parts of its body. The first part (up to the
  insertion of the overlay) works on the page around the mount element, which \<open>a\<close>
  locates: it empties the mount element, sets the background of \<open>body\<close>, takes the
  first overlay element off the page if there is one and puts a new one first. It
  yields the reference \<open>app\<close> and the page.
\<close>

definition render_backdrop :: "app_state \<Rightarrow> nat \<Rightarrow> page \<Rightarrow> nat option \<times> page" where
  "render_backdrop S a doc0 =
     (let doc = update_child a clear_children doc0;
          doc = set_body_style ''backgroundImage'' (js ''url('' @ background S @ js '')'') doc;
          doc = set_body_style ''backgroundSize'' (js ''cover'') doc;
          doc = set_body_style ''backgroundPosition'' (js ''center'') doc;
          doc = set_body_style ''backgroundAttachment'' (js ''fixed'') doc;
          existingOverlay = querySelector_class (js ''overlay'') doc;
          app = (case existingOverlay of None \<Rightarrow> Some a | Some j \<Rightarrow> after_remove j (Some a));
          doc = (case existingOverlay of None \<Rightarrow> doc | Some j \<Rightarrow> remove_child j doc);
          doc = insert_first (overlay_el S) doc;
          app = map_option Suc app
      in (app, doc))"

text \<open>
  The second part fills the mount element: the toggle button, then \<open>main\<close> with its
  two pages. The two calls of \<open>createCategorySection\<close> come after the toggle button is
  on the page and before \<open>main\<close> is.
\<close>

definition render_content :: "app_state \<Rightarrow> bool \<Rightarrow> nat option \<Rightarrow> page \<Rightarrow> unit completion \<times> page" where
  "render_content S em app doc0 =
     (let doc = append_to app (toggleBtn_el em) doc0
      in case createCategorySection S em 0 of
           Throw err \<Rightarrow> (Throw err, doc)
         | Normal section0 \<Rightarrow>
             (let page1 = build (createElement (js ''section''))
                            [appendChild (hero_el S em), appendChild section0]
              in case createCategorySection S em 1 of
                   Throw err \<Rightarrow> (Throw err, doc)
                 | Normal section1 \<Rightarrow>
                     (let page2 = build (createElement (js ''section''))
                                    [appendChild section1];
                          main = build (createElement (js ''main''))
                                   [appendChild page1, appendChild page2]
                      in (Normal (), append_to app main doc))))"

text \<open>
  \<open>document.getElementById('app')\<close> is \<open>null\<close> on a page without a mount element, and
  \<open>app.innerHTML = ''\<close> throws a \<open>TypeError\<close> there, before anything is done.
\<close>

definition render_page :: "app_state \<Rightarrow> bool \<Rightarrow> page \<Rightarrow> unit completion \<times> page" where
  "render_page S em doc0 =
     (case getElementById (js ''app'') doc0 of
        None \<Rightarrow> (Throw TypeError, doc0)
      | Some a \<Rightarrow>
          (case render_backdrop S a doc0 of (app, doc) \<Rightarrow> render_content S em app doc))"

definition render :: "world \<Rightarrow> unit completion \<times> world" where
  "render w =
     (case render_page (data w) (editMode w) (document w) of
        (r, doc) \<Rightarrow> (r, w\<lparr>document := doc\<rparr>))"

subsection \<open>The event handlers\<close>

text \<open>
  Each handler takes what it reads from the control it belongs to: the \<open>value\<close> of a
  text or range input, the \<open>checked\<close> state of a checkbox, the result of the file
  reader.
\<close>

definition toggleBtn_onclick :: "world \<Rightarrow> unit completion \<times> world" where
  "toggleBtn_onclick w = render (w\<lparr>editMode := \<not> editMode w\<rparr>)"

definition namesInput_onchange :: "jsstring \<Rightarrow> world \<Rightarrow> unit completion \<times> world" where
  "namesInput_onchange v w =
     (Normal (), saveData (w\<lparr>data := (data w)\<lparr>names := or_empty v\<rparr>\<rparr>))"

definition taglineInput_onchange :: "jsstring \<Rightarrow> world \<Rightarrow> unit completion \<times> world" where
  "taglineInput_onchange v w =
     (Normal (), saveData (w\<lparr>data := (data w)\<lparr>tagline := or_empty v\<rparr>\<rparr>))"

definition reader_onload :: "jsstring \<Rightarrow> world \<Rightarrow> unit completion \<times> world" where
  "reader_onload result w = render (saveData (w\<lparr>data := (data w)\<lparr>background := result\<rparr>\<rparr>))"


text \<open>
  The handlers of a category section reach the category as \<open>data.sections[idx]\<close>,
  which throws a \<open>TypeError\<close> when there is no such category.
\<close>

definition titleInput_onchange :: "nat \<Rightarrow> jsstring \<Rightarrow> world \<Rightarrow> unit completion \<times> world" where
  "titleInput_onchange idx v w =
     (if idx < length (sections (data w)) then
        (Normal (),
         saveData (w\<lparr>data := (data w)\<lparr>sections :=
           (sections (data w))[idx := (sections (data w) ! idx)\<lparr>title := or_empty v\<rparr>]\<rparr>\<rparr>))
      else (Throw TypeError, w))"

text \<open>
  The closure of \<open>checkbox.onchange\<close> holds the task object itself; every handler that
  changes a task list renders again, so on the page the task of row \<open>taskIndex\<close> of
  section \<open>idx\<close> is \<open>data.sections[idx].tasks[taskIndex]\<close>. A position outside the
  lists is a task that is no longer part of \<open>data\<close>.
\<close>

definition set_completed :: "nat \<Rightarrow> nat \<Rightarrow> bool \<Rightarrow> app_state \<Rightarrow> app_state" where
  "set_completed idx taskIndex b S =
     S\<lparr>sections := (sections S)[idx := (sections S ! idx)\<lparr>tasks :=
         (tasks (sections S ! idx))[taskIndex :=
            (tasks (sections S ! idx) ! taskIndex)\<lparr>completed := b\<rparr>]\<rparr>]\<rparr>"

definition checkbox_onchange :: "nat \<Rightarrow> nat \<Rightarrow> bool \<Rightarrow> world \<Rightarrow> unit completion \<times> world" where
  "checkbox_onchange idx taskIndex checked w =
     render (saveData (w\<lparr>data := set_completed idx taskIndex checked (data w)\<rparr>))"

text \<open>\<open>tasks.splice(taskIndex, 1)\<close>: nothing is removed at a position past the end.\<close>

definition splice1 :: "nat \<Rightarrow> 'a list \<Rightarrow> 'a list" where
  "splice1 i xs = take i xs @ drop (Suc i) xs"

definition delBtn_onclick :: "nat \<Rightarrow> nat \<Rightarrow> world \<Rightarrow> unit completion \<times> world" where
  "delBtn_onclick idx taskIndex w =
     (if idx < length (sections (data w)) then
        render (saveData (w\<lparr>data := (data w)\<lparr>sections :=
          (sections (data w))[idx := (sections (data w) ! idx)\<lparr>tasks :=
             splice1 taskIndex (tasks (sections (data w) ! idx))\<rparr>]\<rparr>\<rparr>))
      else (Throw TypeError, w))"

text \<open>
  \<open>input.value = ''\<close> clears an input that the following \<open>render\<close> takes off the page
  with the rest of the mount element's content.
\<close>

definition addBtn_onclick :: "nat \<Rightarrow> jsstring \<Rightarrow> world \<Rightarrow> unit completion \<times> world" where
  "addBtn_onclick idx input_value w =
     (let text = trim input_value
      in if truthy text then
           (if idx < length (sections (data w)) then
              render (saveData (w\<lparr>data := (data w)\<lparr>sections :=
                (sections (data w))[idx := (sections (data w) ! idx)\<lparr>tasks :=
                   tasks (sections (data w) ! idx) @ [\<lparr>text' = text, completed = False\<rparr>]\<rparr>]\<rparr>\<rparr>))
            else (Throw TypeError, w))
         else (Normal (), w))"

section \<open>Objects by reference\<close>

text \<open>
  A state is a graph of objects, and the script's variables hold references to them.
  Where that matters, the heap is explicit: a list of objects, the address of an object
  being its position, and a new object going to the end.
\<close>

type_synonym addr = nat

datatype hvalue = HNull | HBool bool | HNum jsnum | HStr jsstring | HRef addr

datatype hobject = HArr "hvalue list" | HObj "(jsstring \<times> hvalue) list"

type_synonym heap = "hobject list"

text \<open>
  The objects of a JSON value, made new: what an object literal does, and what
  \<open>JSON.parse\<close> does with the value it has read. The parts are made before the whole.
\<close>

fun alloc :: "json \<Rightarrow> heap \<Rightarrow> hvalue \<times> heap"
  and alloc_elements :: "json list \<Rightarrow> heap \<Rightarrow> hvalue list \<times> heap"
  and alloc_members :: "(jsstring \<times> json) list \<Rightarrow> heap \<Rightarrow> (jsstring \<times> hvalue) list \<times> heap"
where
  "alloc JNull h = (HNull, h)"
| "alloc (JBool b) h = (HBool b, h)"
| "alloc (JNum x) h = (HNum x, h)"
| "alloc (JStr s) h = (HStr s, h)"
| "alloc (JArr vs) h = (case alloc_elements vs h of (xs, h1) \<Rightarrow> (HRef (length h1), h1 @ [HArr xs]))"
| "alloc (JObj kvs) h = (case alloc_members kvs h of (ms, h1) \<Rightarrow> (HRef (length h1), h1 @ [HObj ms]))"
| "alloc_elements [] h = ([], h)"
| "alloc_elements (v # vs) h =
     (case alloc v h of (x, h1) \<Rightarrow>
        (case alloc_elements vs h1 of (xs, h2) \<Rightarrow> (x # xs, h2)))"
| "alloc_members [] h = ([], h)"
| "alloc_members ((k, v) # kvs) h =
     (case alloc v h of (x, h1) \<Rightarrow>
        (case alloc_members kvs h1 of (ms, h2) \<Rightarrow> ((k, x) # ms, h2)))"

text \<open>
  The JSON value that \<open>JSON.stringify\<close> finds when it walks from a value through the
  heap, to a depth of \<open>n\<close> objects; \<open>None\<close> when the walk goes deeper or leaves the heap.
\<close>

fun read :: "nat \<Rightarrow> heap \<Rightarrow> hvalue \<Rightarrow> json option" where
  "read n h HNull = Some JNull"
| "read n h (HBool b) = Some (JBool b)"
| "read n h (HNum x) = Some (JNum x)"
| "read n h (HStr s) = Some (JStr s)"
| "read 0 h (HRef a) = None"
| "read (Suc n) h (HRef a) =
     (if a < length h then
        (case h ! a of
           HArr xs \<Rightarrow> map_option JArr (those (map (read n h) xs))
         | HObj ms \<Rightarrow>
             map_option JObj (those (map (\<lambda>kx. map_option (Pair (fst kx)) (read n h (snd kx))) ms)))
      else None)"

text \<open>
  \<open>JSON.stringify\<close> of a heap value. No walk through a heap without a cycle is deeper
  than the heap has objects; on a cycle \<open>JSON.stringify\<close> throws a \<open>TypeError\<close>.
\<close>

definition stringify_heap :: "heap \<Rightarrow> hvalue \<Rightarrow> js_error + jsstring" where
  "stringify_heap h x =
     (case read (Suc (length h)) h x of
        None \<Rightarrow> Inl TypeError
      | Some v \<Rightarrow> Inr (JSON_stringify v))"

text \<open>
  \<open>getData\<close> with its objects: \<open>d\<close> is the reference that the constant \<open>defaultData\<close>
  holds, and what is returned is a reference into the heap that is returned with it.
\<close>

definition default_copy_heap :: "hvalue \<Rightarrow> heap \<Rightarrow> hvalue completion \<times> heap" where
  "default_copy_heap d h =
     (case stringify_heap h d of
        Inl err \<Rightarrow> (Throw err, h)
      | Inr s \<Rightarrow>
          (case JSON_parse s of
             Inl err \<Rightarrow> (Throw err, h)
           | Inr v \<Rightarrow> (case alloc v h of (x, h') \<Rightarrow> (Normal x, h'))))"

definition getData_heap ::
  "hvalue \<Rightarrow> storage \<Rightarrow> log_entry list \<Rightarrow> heap \<Rightarrow> (hvalue completion \<times> heap) \<times> log_entry list" where
  "getData_heap d st con h =
     (case getItem (js ''coupleQuestData'') st of
        None \<Rightarrow> (default_copy_heap d h, con)
      | Some saved \<Rightarrow>
          if truthy saved then
            (case JSON_parse saved of
               Inr v \<Rightarrow> (case alloc v h of (x, h') \<Rightarrow> ((Normal x, h'), con))
             | Inl err \<Rightarrow>
                 (default_copy_heap d h, con @ [(js ''Failed to parse stored data:'', err)]))
          else (default_copy_heap d h, con))"

text \<open>The heap when the script has evaluated the literal of \<open>defaultData\<close>, and the constant.\<close>

definition initial_heap :: heap where
  "initial_heap = snd (alloc (state_json defaultData) [])"

definition defaultData_ref :: hvalue where
  "defaultData_ref = fst (alloc (state_json defaultData) [])"

text \<open>The addresses that an object, or a value, holds.\<close>

fun ref_of :: "hvalue \<Rightarrow> addr list" where
  "ref_of (HRef a) = [a]"
| "ref_of _ = []"

definition refs :: "hobject \<Rightarrow> addr list" where
  "refs ob =
     (case ob of
        HArr xs \<Rightarrow> concat (map ref_of xs)
      | HObj ms \<Rightarrow> concat (map (\<lambda>kx. ref_of (snd kx)) ms))"

section \<open>Vocabulary of the properties\<close>

text \<open>What is stored under the script's key, and whether the store takes a write of \<open>v\<close> under it.\<close>

definition persisted :: "world \<Rightarrow> jsstring option" where
  "persisted w = getItem (js ''coupleQuestData'') (localStorage w)"

definition accepts :: "storage \<Rightarrow> jsstring \<Rightarrow> bool" where
  "accepts st v \<longleftrightarrow> used (AList.update (js ''coupleQuestData'') v (items st)) \<le> quota st"

text \<open>
  A handler that went from \<open>w\<close> to \<open>w'\<close> persisted its change: it made the one write of
  \<open>saveData\<close> with the state of \<open>w'\<close>. Either the store took it, and the serialised
  state of \<open>w'\<close> is under the key, or the store refused it, and the store is as it was
  and the refusal is on the console.
\<close>

definition save_step :: "world \<Rightarrow> world \<Rightarrow> bool" where
  "save_step w w' \<longleftrightarrow>
     (if accepts (localStorage w) (JSON_stringify (state_json (data w')))
      then persisted w' = Some (JSON_stringify (state_json (data w'))) \<and> console w' = console w
      else localStorage w' = localStorage w \<and>
           console w' = console w @ [(js ''Failed to save data:'', QuotaExceededError)])"

subsection \<open>The user at a checkbox\<close>

text \<open>
  The \<open>checked\<close> state that \<open>render\<close> gave the checkbox of a task row (the first child
  of the row's label).
\<close>

definition shown_checked :: "node \<Rightarrow> bool" where
  "shown_checked item =
     (case map_of (props (hd (children (hd (children item))))) ''checked'' of
        Some (PBool b) \<Rightarrow> b
      | _ \<Rightarrow> False)"

text \<open>
  The user toggles the checkbox of row \<open>taskIndex\<close> of section \<open>idx\<close> on a page rendered
  from the current data: the control goes to the opposite of the state it was given,
  and its change event runs the handler.
\<close>

definition checkbox_toggled :: "nat \<Rightarrow> nat \<Rightarrow> world \<Rightarrow> unit completion \<times> world" where
  "checkbox_toggled idx taskIndex w =
     (let t = tasks (sections (data w) ! idx) ! taskIndex;
          shown = shown_checked (quest_item (editMode w) idx taskIndex t)
      in checkbox_onchange idx taskIndex (\<not> shown) w)"

subsection \<open>Pages\<close>




subsection \<open>Numbers\<close>

text \<open>
  A number as the script can hold it after \<open>JSON.parse\<close>: finite, in its shortest
  decimal form, zero without a sign.
\<close>

definition proper_number :: "jsnum \<Rightarrow> bool" where
  "proper_number x =
     (case x of
        Dec neg m e \<Rightarrow> if m = 0 then \<not> neg \<and> e = 0 else m mod 10 \<noteq> 0
      | _ \<Rightarrow> False)"


text \<open>
  The values of the range control of \<open>render\<close> (\<open>min\<close> 0, \<open>max\<close> 0.9, \<open>step\<close> 0.05): the
  \<open>k\<close>-th is \<open>5 * k / 100\<close>, for \<open>k\<close> up to 18.
\<close>

definition control_value :: "nat \<Rightarrow> jsnum" where
  "control_value k = (case strip10 (5 * k) (- 2) of (m, e) \<Rightarrow> Dec False m e)"

text \<open>
  The decimal literal with integer digits \<open>ds\<close>, fraction digits \<open>fs\<close> and, if any, an
  exponent part; and what may follow a number in a text.
\<close>

definition exponent_part :: "int \<Rightarrow> jsstring" where
  "exponent_part x = js ''e'' @ (if x < 0 then js ''-'' else js ''+'') @ decimal (nat \<bar>x\<bar>)"

definition literal :: "jsstring \<Rightarrow> jsstring \<Rightarrow> int option \<Rightarrow> jsstring" where
  "literal ds fs ex =
     ds @ (if fs = [] then [] else js ''.'' @ fs) @
     (case ex of None \<Rightarrow> [] | Some x \<Rightarrow> exponent_part x)"

definition number_end :: "jsstring \<Rightarrow> bool" where
  "number_end r \<longleftrightarrow>
     r = [] \<or> \<not> (is_digit (hd r) \<or> hd r = 0x2E \<or> hd r = 0x65 \<or> hd r = 0x45)"

subsection \<open>JSON values\<close>

text \<open>
  A value that \<open>JSON.stringify\<close> writes and \<open>JSON.parse\<close> reads back as it was: its
  numbers are proper and no object has a key twice.
\<close>

fun wf_json :: "json \<Rightarrow> bool" where
  "wf_json (JNum x) = proper_number x"
| "wf_json (JArr vs) = (\<forall>v \<in> set vs. wf_json v)"
| "wf_json (JObj kvs) = (distinct (map fst kvs) \<and> (\<forall>kv \<in> set kvs. wf_json (snd kv)))"
| "wf_json _ = True"

text \<open>A code unit that can begin a written value.\<close>

definition value_start :: "code_unit \<Rightarrow> bool" where
  "value_start c \<longleftrightarrow> \<not> is_ws c \<and> c \<noteq> 0x5D \<and> c \<noteq> 0x7D"


subsection \<open>Sample worlds\<close>

definition sample_page :: page where
  "sample_page =
     \<lparr> body_style = [],
       body_children = [set_prop ''id'' (PStr (js ''app'')) (createElement (js ''div''))] \<rparr>"

definition sample_world :: world where
  "sample_world =
     \<lparr> data = defaultData, editMode = True,
       localStorage = \<lparr> items = [], quota = 5000 \<rparr>,
       console = [], document = sample_page \<rparr>"

text \<open>A small state that is not the default one, on the store of the sample world.\<close>

definition small_state :: app_state where
  "small_state =
     \<lparr> names = js ''Ann & Bob'', tagline = js ''Go'', background = js ''b.jpg'',
       overlay = Dec False 35 (- 2),
       sections =
         [ \<lparr> title = js ''Trips'', tasks = [ \<lparr> text' = js ''Rome'', completed = True \<rparr> ] \<rparr>,
           \<lparr> title = js ''Goals'', tasks = [] \<rparr> ] \<rparr>"

definition small_world :: world where
  "small_world = sample_world\<lparr>data := small_state\<rparr>"

text \<open>The same world on a store that takes no write.\<close>

definition full_world :: world where
  "full_world = sample_world\<lparr>localStorage := \<lparr> items = [], quota = 0 \<rparr>\<rparr>"

text \<open>Stores: one without the item, one with an item that is not JSON.\<close>

definition empty_store :: storage where
  "empty_store = \<lparr> items = [], quota = 5000 \<rparr>"

definition corrupt_store :: storage where
  "corrupt_store = \<lparr> items = [(js ''coupleQuestData'', js ''{oops'')], quota = 5000 \<rparr>"



section \<open>Properties\<close>

subsection \<open>What \<open>render\<close> and \<open>saveData\<close> leave alone\<close>

lemma render_frame [simp]:
  "data (snd (render w)) = data w"
  "editMode (snd (render w)) = editMode w"
  "localStorage (snd (render w)) = localStorage w"
  "console (snd (render w)) = console w"
  by (simp_all add: render_def split: prod.splits)

lemma saveData_frame [simp]:
  "data (saveData w) = data w"
  "editMode (saveData w) = editMode w"
  "document (saveData w) = document w"
  by (simp_all add: saveData_def split: sum.splits)

lemma map_of_update_same: "map_of (AList.update k v kvs) k = Some v"
  by (simp add: update_conv')

lemma saveData_accepted:
  "accepts (localStorage w) (JSON_stringify (state_json (data w))) \<Longrightarrow>
   persisted (saveData w) = Some (JSON_stringify (state_json (data w))) \<and>
   console (saveData w) = console w"
  by (simp add: saveData_def setItem_def accepts_def persisted_def getItem_def Let_def
      map_of_update_same)

lemma saveData_refused:
  "\<not> accepts (localStorage w) (JSON_stringify (state_json (data w))) \<Longrightarrow>
   saveData w = w\<lparr>console := console w @ [(js ''Failed to save data:'', QuotaExceededError)]\<rparr>"
  by (simp add: saveData_def setItem_def accepts_def Let_def)

lemma save_step_saveData:
  "localStorage w1 = localStorage w \<Longrightarrow> console w1 = console w \<Longrightarrow> data w1 = S \<Longrightarrow>
   localStorage w' = localStorage (saveData w1) \<Longrightarrow> console w' = console (saveData w1) \<Longrightarrow>
   data w' = S \<Longrightarrow> save_step w w'"
  using saveData_accepted [of w1] saveData_refused [of w1]
  by (auto simp: save_step_def persisted_def)

subsection \<open>A failed write\<close>

text \<open>
  C9. When the write of \<open>saveData\<close> fails, \<open>saveData\<close> returns normally with the failure
  added to the console, once; the state in memory and the store are as before the call
  (nothing is written, nothing is tried again).
\<close>

theorem saveData_write_failure:
  assumes "setItem (js ''coupleQuestData'') (JSON_stringify (state_json (data w)))
             (localStorage w) = Inl err"
  shows "saveData w = w\<lparr>console := console w @ [(js ''Failed to save data:'', err)]\<rparr>
         \<and> data (saveData w) = data w
         \<and> localStorage (saveData w) = localStorage w"
  using assms by (simp add: saveData_def)

theorem saveData_write_failure_witness:
  "setItem (js ''coupleQuestData'') (JSON_stringify (state_json (data full_world)))
     (localStorage full_world) = Inl QuotaExceededError
   \<and> saveData full_world =
       full_world\<lparr>console := console full_world @ [(js ''Failed to save data:'', QuotaExceededError)]\<rparr>
   \<and> data (saveData full_world) = data full_world
   \<and> localStorage (saveData full_world) = localStorage full_world"
proof -
  have h: "setItem (js ''coupleQuestData'') (JSON_stringify (state_json (data full_world)))
             (localStorage full_world) = Inl QuotaExceededError"
    by (simp add: setItem_def used_def full_world_def js_def)
  from saveData_write_failure [OF h] h show ?thesis by (intro conjI) simp_all
qed

subsection \<open>Adding a task\<close>

text \<open>
  C3. In a category that exists, the add control with an input whose trimmed form is
  not empty appends one task, with the trimmed input as text and not completed, at the
  end of the category's list, the tasks before it staying where they were, and
  persists; with an input whose trimmed form is empty it changes nothing at all.
\<close>

theorem addBtn_onclick_appends:
  assumes "idx < length (sections (data w))"
  shows "(trim v \<noteq> [] \<longrightarrow>
            (let w' = snd (addBtn_onclick idx v w);
                 old = tasks (sections (data w) ! idx);
                 new = tasks (sections (data w') ! idx)
             in new = old @ [\<lparr>text' = trim v, completed = False\<rparr>]
                \<and> length new = Suc (length old)
                \<and> (\<forall>j < length old. new ! j = old ! j)
                \<and> save_step w w'))
       \<and> (trim v = [] \<longrightarrow> addBtn_onclick idx v w = (Normal (), w))"
  using assms
  by (auto simp: addBtn_onclick_def truthy_def Let_def nth_append
      intro!: save_step_saveData [where ?w1.0 = "w\<lparr>data := _\<rparr>"])

lemma trim_sample: "trim (js ''  Swim with dolphins '') = js ''Swim with dolphins''"
  by (simp add: trim_def isWhiteSpace_def js_def)

lemma trim_blank: "trim (js ''   '') = []"
  by (simp add: trim_def isWhiteSpace_def js_def)

theorem addBtn_onclick_appends_witness:
  "0 < length (sections (data sample_world))
   \<and> trim (js ''  Swim with dolphins '') \<noteq> []
   \<and> tasks (sections (data (snd (addBtn_onclick 0 (js ''  Swim with dolphins '') sample_world))) ! 0)
       = tasks (sections (data sample_world) ! 0) @ [\<lparr>text' = js ''Swim with dolphins'', completed = False\<rparr>]
   \<and> save_step sample_world (snd (addBtn_onclick 0 (js ''  Swim with dolphins '') sample_world))
   \<and> trim (js ''   '') = []
   \<and> addBtn_onclick 0 (js ''   '') sample_world = (Normal (), sample_world)"
proof -
  have h: "0 < length (sections (data sample_world))"
    by (simp add: sample_world_def defaultData_def)
  have n: "trim (js ''  Swim with dolphins '') \<noteq> []"
    unfolding trim_sample by (simp add: js_def)
  from addBtn_onclick_appends [OF h, of "js ''  Swim with dolphins ''"]
       addBtn_onclick_appends [OF h, of "js ''   ''"] h n
  show ?thesis
    by (simp add: Let_def trim_sample trim_blank)
qed


subsection \<open>Deleting a task\<close>

text \<open>
  C4. In a category that exists, the delete control of the task at a position \<open>i\<close> of
  the list takes out that task and no other: the list becomes the old one without its
  element \<open>i\<close>, the tasks before \<open>i\<close> keep their positions, each task after \<open>i\<close> moves
  down by one, and the handler persists.
\<close>

theorem delBtn_onclick_removes:
  assumes "idx < length (sections (data w))"
    and "i < length (tasks (sections (data w) ! idx))"
  shows "(let w' = snd (delBtn_onclick idx i w);
              old = tasks (sections (data w) ! idx);
              new = tasks (sections (data w') ! idx)
          in new = take i old @ drop (Suc i) old
             \<and> Suc (length new) = length old
             \<and> (\<forall>j < i. new ! j = old ! j)
             \<and> (\<forall>j. i \<le> j \<and> j < length new \<longrightarrow> new ! j = old ! Suc j)
             \<and> save_step w w')"
  using assms
  by (auto simp: delBtn_onclick_def splice1_def Let_def nth_append min_def
      intro!: save_step_saveData [where ?w1.0 = "w\<lparr>data := _\<rparr>"])

theorem delBtn_onclick_removes_witness:
  "0 < length (sections (data sample_world))
   \<and> 1 < length (tasks (sections (data sample_world) ! 0))
   \<and> (let w' = snd (delBtn_onclick 0 1 sample_world);
           old = tasks (sections (data sample_world) ! 0);
           new = tasks (sections (data w') ! 0)
       in new = take 1 old @ drop (Suc 1) old
          \<and> Suc (length new) = length old
          \<and> (\<forall>j < 1. new ! j = old ! j)
          \<and> (\<forall>j. 1 \<le> j \<and> j < length new \<longrightarrow> new ! j = old ! Suc j)
          \<and> save_step sample_world w')"
proof -
  have h1: "0 < length (sections (data sample_world))"
    by (simp add: sample_world_def defaultData_def)
  have h2: "1 < length (tasks (sections (data sample_world) ! 0))"
    by (simp add: sample_world_def defaultData_def)
  show ?thesis
    using h1 h2 delBtn_onclick_removes [OF h1 h2] by blast
qed

subsection \<open>Toggling a task\<close>

lemma shown_checked_quest_item [simp]: "shown_checked (quest_item em idx i t) = completed t"
  by (simp add: shown_checked_def quest_item_def build_def createElement_def appendChild_def
      set_prop_def set_on_def classList_add_def Let_def)

text \<open>
  C5. Toggling the checkbox of a task flips the \<open>completed\<close> field of that task and
  persists; the text of the task, every other task, every category title, the number
  of categories and of tasks, and \<open>names\<close>, \<open>tagline\<close>, \<open>background\<close> and \<open>overlay\<close> stay
  as they were.
\<close>

theorem checkbox_toggled_flips:
  assumes "idx < length (sections (data w))"
    and "i < length (tasks (sections (data w) ! idx))"
  shows "(let w' = snd (checkbox_toggled idx i w); S = data w; S' = data w'
          in completed (tasks (sections S' ! idx) ! i) = (\<not> completed (tasks (sections S ! idx) ! i))
             \<and> text' (tasks (sections S' ! idx) ! i) = text' (tasks (sections S ! idx) ! i)
             \<and> length (sections S') = length (sections S)
             \<and> (\<forall>j < length (sections S).
                   title (sections S' ! j) = title (sections S ! j)
                   \<and> length (tasks (sections S' ! j)) = length (tasks (sections S ! j))
                   \<and> (\<forall>k < length (tasks (sections S ! j)).
                         (j, k) \<noteq> (idx, i) \<longrightarrow> tasks (sections S' ! j) ! k = tasks (sections S ! j) ! k))
             \<and> names S' = names S \<and> tagline S' = tagline S
             \<and> background S' = background S \<and> overlay S' = overlay S
             \<and> save_step w w')"
  using assms
  by (auto simp: checkbox_toggled_def checkbox_onchange_def set_completed_def Let_def nth_list_update
      intro!: save_step_saveData [where ?w1.0 = "w\<lparr>data := _\<rparr>"])

theorem checkbox_toggled_flips_witness:
  "1 < length (sections (data sample_world))
   \<and> 2 < length (tasks (sections (data sample_world) ! 1))
   \<and> completed (tasks (sections (data (snd (checkbox_toggled 1 2 sample_world))) ! 1) ! 2)
   \<and> tasks (sections (data (snd (checkbox_toggled 1 2 sample_world))) ! 1) ! 3
       = tasks (sections (data sample_world) ! 1) ! 3
   \<and> save_step sample_world (snd (checkbox_toggled 1 2 sample_world))"
proof -
  have h1: "1 < length (sections (data sample_world))"
    by (simp add: sample_world_def defaultData_def)
  have h2: "2 < length (tasks (sections (data sample_world) ! 1))"
    by (simp add: sample_world_def defaultData_def)
  have c: "\<not> completed (tasks (sections (data sample_world) ! 1) ! 2)"
    by (simp add: sample_world_def defaultData_def)
  have l: "3 < length (tasks (sections (data sample_world) ! 1))"
    by (simp add: sample_world_def defaultData_def)
  show ?thesis
    using h1 h2 c l checkbox_toggled_flips [OF h1 h2]
    by (auto simp: Let_def)
qed

subsection \<open>Committing the names and the tagline\<close>

lemma or_empty_id [simp]: "or_empty v = v"
  by (simp add: or_empty_def truthy_def js_def)

text \<open>
  C6, as the script has it. The value committed in the names editor or in the tagline
  editor is written to the state exactly as it is, surrounding white space included,
  and persisted; an empty value is stored as the empty string.
\<close>

theorem hero_commit_raw:
  "(let w' = snd (namesInput_onchange v w)
    in names (data w') = v \<and> data w' = (data w)\<lparr>names := v\<rparr> \<and> save_step w w')
   \<and> (let w' = snd (taglineInput_onchange v w)
      in tagline (data w') = v \<and> data w' = (data w)\<lparr>tagline := v\<rparr> \<and> save_step w w')"
  by (auto simp: namesInput_onchange_def taglineInput_onchange_def Let_def
      intro!: save_step_saveData [where ?w1.0 = "w\<lparr>data := _\<rparr>"])

theorem hero_commit_raw_witness:
  "names (data (snd (namesInput_onchange (js '' Ann & Bob '') sample_world))) = js '' Ann & Bob ''
   \<and> tagline (data (snd (taglineInput_onchange [] sample_world))) = []
   \<and> save_step sample_world (snd (namesInput_onchange (js '' Ann & Bob '') sample_world))"
  using hero_commit_raw [of "js '' Ann & Bob ''" sample_world] hero_commit_raw [of "[]" sample_world]
  by (simp add: Let_def)

text \<open>
  C6, as the claim has it, fails: a value with surrounding white space is not stored
  trimmed.
\<close>

theorem hero_commit_trimmed_counterexample:
  "names (data (snd (namesInput_onchange (js '' Ann & Bob '') sample_world))) \<noteq> trim (js '' Ann & Bob '')"
  by (simp add: namesInput_onchange_def trim_def isWhiteSpace_def js_def)

subsection \<open>Rendering twice\<close>








lemma clear_clear [simp]: "clear_children (clear_children n) = clear_children n"
  by (simp add: clear_children_def)

lemma clear_appendChild [simp]: "clear_children (appendChild c n) = clear_children n"
  by (simp add: clear_children_def appendChild_def)



lemma overlay_el_class [simp]: "has_class (js ''overlay'') (overlay_el S)"
  by (simp add: overlay_el_def build_def createElement_def set_prop_def set_style_def
      has_class_def className_def js_def is_space_def)

lemma overlay_el_id [simp]: "\<not> has_id i (overlay_el S)"
  by (simp add: overlay_el_def build_def createElement_def set_prop_def set_style_def has_id_def)
















subsection \<open>Printing and reading numbers\<close>

lemma unat_digit: "d < 10 \<Longrightarrow> unat (digit d) = 48 + d"
  by (simp only: digit_def unat_of_nat) simp

lemma is_digit_digit [simp]: "d < 10 \<Longrightarrow> is_digit (digit d)"
  by (simp add: is_digit_def word_le_nat_alt unat_digit)

lemma digit_val_digit [simp]: "d < 10 \<Longrightarrow> digit_val (digit d) = d"
  by (simp add: digit_val_def unat_digit)

lemma digit_eq_zero: "d < 10 \<Longrightarrow> digit d = 0x30 \<longleftrightarrow> d = 0"
  using unat_digit [of d] by (auto simp: digit_def)

lemma digit_val_0x30 [simp]: "digit_val 0x30 = 0"
  by (simp add: digit_val_def)

lemma digit_0 [simp]: "digit 0 = 0x30"
  by (simp add: digit_def)

lemma digits_val_zeros [simp]: "digits_val (replicate j 0x30) = 0"
  by (induction j) (simp_all add: digits_val_def)

lemma digits_lt: "d \<in> set (digits n) \<Longrightarrow> d < 10"
  by (induction n arbitrary: d rule: digits.induct) (subst (asm) digits.simps, auto split: if_splits)

lemma digits_ne [simp]: "digits n \<noteq> []"
  by (subst digits.simps) simp

lemma hd_digits: "0 < n \<Longrightarrow> hd (digits n) \<noteq> 0"
  by (induction n rule: digits.induct) (subst digits.simps, auto)

lemma last_digits: "last (digits n) = n mod 10"
  by (subst digits.simps) simp

lemma foldl_digits: "foldl (\<lambda>a d. 10 * a + d) 0 (digits n) = n"
  by (induction n rule: digits.induct) (subst digits.simps, auto)

lemma digits_val_append:
  "digits_val (xs @ ys) = digits_val xs * 10 ^ length ys + digits_val ys"
proof (induction ys rule: rev_induct)
  case Nil
  show ?case by (simp add: digits_val_def)
next
  case (snoc y ys)
  then show ?case
    by (simp add: digits_val_def algebra_simps flip: append_assoc)
qed

lemma digits_val_decimal [simp]: "digits_val (decimal n) = n"
proof -
  have "foldl (\<lambda>a c. 10 * a + digit_val c) a (map digit ds) = foldl (\<lambda>a d. 10 * a + d) a ds"
    if "\<forall>d \<in> set ds. d < 10" for ds a
    using that by (induction ds arbitrary: a) auto
  then show ?thesis
    by (simp add: digits_val_def decimal_def digits_lt foldl_digits)
qed

lemma all_digits_decimal [simp]: "c \<in> set (decimal n) \<Longrightarrow> is_digit c"
  by (auto simp: decimal_def digits_lt)

lemma decimal_ne [simp]: "decimal n \<noteq> []"
  by (simp add: decimal_def)

lemma hd_decimal: "0 < n \<Longrightarrow> hd (decimal n) \<noteq> 0x30"
  using hd_digits [of n] digits_lt [of "hd (digits n)" n]
  by (simp add: decimal_def hd_map digit_eq_zero)

lemma strip10_canonical: "0 < m \<Longrightarrow> m mod 10 \<noteq> 0 \<Longrightarrow> strip10 (m * 10 ^ j) e = (m, e + int j)"
proof (induction j arbitrary: e)
  case 0
  then show ?case by (subst strip10.simps) simp
next
  case (Suc j)
  have "strip10 (m * 10 ^ Suc j) e = strip10 (m * 10 ^ j) (e + 1)"
    using Suc.prems by (subst strip10.simps) simp
  with Suc show ?case by simp
qed


lemma takeWhile_prefix:
  "\<forall>c \<in> set ds. P c \<Longrightarrow> r = [] \<or> \<not> P (hd r) \<Longrightarrow> takeWhile P (ds @ r) = ds"
  by (cases r) (simp_all add: takeWhile_append2)

lemma dropWhile_prefix:
  "\<forall>c \<in> set ds. P c \<Longrightarrow> r = [] \<or> \<not> P (hd r) \<Longrightarrow> dropWhile P (ds @ r) = r"
  by (cases r) (simp_all add: dropWhile_append2)

lemma scan_exponent_part:
  assumes "r = [] \<or> \<not> is_digit (hd r)"
  shows "scan_exponent (exponent_part x @ r) = (x, r)"
proof -
  have t: "takeWhile is_digit (decimal (nat \<bar>x\<bar>) @ r) = decimal (nat \<bar>x\<bar>)"
    using assms by (intro takeWhile_prefix) auto
  have d: "dropWhile is_digit (decimal (nat \<bar>x\<bar>) @ r) = r"
    using assms by (intro dropWhile_prefix) auto
  show ?thesis
    using t d by (simp add: scan_exponent_def exponent_part_def js_def Let_def)
qed

lemma scan_exponent_none:
  "r = [] \<or> (hd r \<noteq> 0x65 \<and> hd r \<noteq> 0x45) \<Longrightarrow> scan_exponent r = (0, r)"
  by (cases r) (auto simp: scan_exponent_def)


lemma exponent_part_hd [simp]: "exponent_part x \<noteq> []" "hd (exponent_part x) = 0x65"
  by (simp_all add: exponent_part_def js_def)

lemma not_digit_simps [simp]:
  "\<not> is_digit 0x2E" "\<not> is_digit 0x65" "\<not> is_digit 0x2D" "\<not> is_digit 0x45" "is_digit 0x30"
  by (simp_all add: is_digit_def)

lemma literal_scan:
  fixes ex :: "int option"
  assumes ds: "ds \<noteq> []" "\<forall>c \<in> set ds. is_digit c"
    and fs: "\<forall>c \<in> set fs. is_digit c"
    and r: "number_end r"
  defines "t2 \<equiv> (case ex of None \<Rightarrow> [] | Some x \<Rightarrow> exponent_part x) @ r"
  defines "t1 \<equiv> (if fs = [] then [] else js ''.'' @ fs) @ t2"
  shows "literal ds fs ex @ r = ds @ t1"
    and "takeWhile is_digit (ds @ t1) = ds"
    and "drop (length ds) (ds @ t1) = t1"
    and "dropWhile is_digit (ds @ t1) = t1"
    and "(case ds @ t1 of [] \<Rightarrow> False | c # _ \<Rightarrow> c = 0x2D) = False"
    and "(case t1 of [] \<Rightarrow> False | c # _ \<Rightarrow> c = 0x2E) = (fs \<noteq> [])"
    and "fs \<noteq> [] \<Longrightarrow> takeWhile is_digit (tl t1) = fs"
    and "fs \<noteq> [] \<Longrightarrow> dropWhile is_digit (tl t1) = t2"
    and "fs = [] \<Longrightarrow> t1 = t2"
    and "(case t2 of [] \<Rightarrow> False | c # _ \<Rightarrow> c = 0x65 \<or> c = 0x45) = (ex \<noteq> None)"
    and "scan_exponent t2 = ((case ex of None \<Rightarrow> 0 | Some x \<Rightarrow> x), r)"
    and "ex \<noteq> None \<Longrightarrow> r \<noteq> t2"
proof -
  have r': "r = [] \<or> \<not> is_digit (hd r)" "r = [] \<or> (hd r \<noteq> 0x65 \<and> hd r \<noteq> 0x45)"
    "r = [] \<or> hd r \<noteq> 0x2E"
    using r by (auto simp: number_end_def)
  have t2: "t2 = [] \<or> (\<not> is_digit (hd t2) \<and> hd t2 \<noteq> 0x2E)"
    using r' by (cases ex) (auto simp: t2_def)
  have t1: "t1 = [] \<or> \<not> is_digit (hd t1)"
    using t2 by (auto simp: t1_def js_def)
  show "literal ds fs ex @ r = ds @ t1"
    by (simp add: literal_def t1_def t2_def)
  show "takeWhile is_digit (ds @ t1) = ds"
    using ds t1 by (intro takeWhile_prefix) auto
  show "dropWhile is_digit (ds @ t1) = t1"
    using ds t1 by (intro dropWhile_prefix) auto
  show "drop (length ds) (ds @ t1) = t1" by simp
  show "(case ds @ t1 of [] \<Rightarrow> False | c # _ \<Rightarrow> c = 0x2D) = False"
    using ds by (cases ds) auto
  show "(case t1 of [] \<Rightarrow> False | c # _ \<Rightarrow> c = 0x2E) = (fs \<noteq> [])"
    using t2 by (cases t2) (auto simp: t1_def js_def)
  show "takeWhile is_digit (tl t1) = fs" if "fs \<noteq> []"
  proof -
    have "tl t1 = fs @ t2" using that by (simp add: t1_def js_def)
    moreover have "takeWhile is_digit (fs @ t2) = fs"
      using fs t2 by (intro takeWhile_prefix) auto
    ultimately show ?thesis by simp
  qed
  show "dropWhile is_digit (tl t1) = t2" if "fs \<noteq> []"
  proof -
    have "tl t1 = fs @ t2" using that by (simp add: t1_def js_def)
    moreover have "dropWhile is_digit (fs @ t2) = t2"
      using fs t2 by (intro dropWhile_prefix) auto
    ultimately show ?thesis by simp
  qed
  show "t1 = t2" if "fs = []" using that by (simp add: t1_def)
  show "(case t2 of [] \<Rightarrow> False | c # _ \<Rightarrow> c = 0x65 \<or> c = 0x45) = (ex \<noteq> None)"
  proof (cases ex)
    case None
    with r' show ?thesis by (cases r) (auto simp: t2_def)
  next
    case (Some x)
    then have "hd t2 = 0x65" "t2 \<noteq> []" by (simp_all add: t2_def)
    with Some show ?thesis by (cases t2) auto
  qed
  show "scan_exponent t2 = ((case ex of None \<Rightarrow> 0 | Some x \<Rightarrow> x), r)"
    using r' by (cases ex) (simp_all add: t2_def scan_exponent_none scan_exponent_part)
  show "r \<noteq> t2" if "ex \<noteq> None"
    using that by (cases ex) (auto simp: t2_def)
qed

lemma number_body_literal:
  assumes ds: "ds \<noteq> []" "\<forall>c \<in> set ds. is_digit c"
    and fs: "\<forall>c \<in> set fs. is_digit c"
    and lead: "ds = [0x30] \<or> hd ds \<noteq> 0x30"
    and r: "number_end r"
  shows "number_body neg (literal ds fs ex @ r)
           = Some (mk_number neg ds fs (case ex of None \<Rightarrow> 0 | Some x \<Rightarrow> x), r)"
proof -
  define t2 where "t2 = (case ex of None \<Rightarrow> [] | Some x \<Rightarrow> exponent_part x) @ r"
  define t1 where "t1 = (if fs = [] then [] else js ''.'' @ fs) @ t2"
  note L = literal_scan [OF ds fs r, of ex, folded t2_def, folded t1_def]
  have ds': "(case ds @ t1 of [] \<Rightarrow> [] | c # _ \<Rightarrow> if c = 0x30 then [c] else takeWhile is_digit (ds @ t1)) = ds"
    using lead ds(1) L(2) by (cases ds) auto
  show ?thesis
  proof (cases "fs = []")
    case True
    with L ds' ds(1) show ?thesis
      by (auto simp: number_body_def Let_def)
  next
    case False
    with L ds' ds(1) show ?thesis
      by (auto simp: number_body_def Let_def)
  qed
qed

lemma parse_number_literal:
  assumes ds: "ds \<noteq> []" "\<forall>c \<in> set ds. is_digit c"
    and fs: "\<forall>c \<in> set fs. is_digit c"
    and lead: "ds = [0x30] \<or> hd ds \<noteq> 0x30"
    and r: "number_end r"
  shows "parse_number ((if neg then js ''-'' else []) @ literal ds fs ex @ r)
           = Some (mk_number neg ds fs (case ex of None \<Rightarrow> 0 | Some x \<Rightarrow> x), r)"
proof -
  obtain a l where al: "literal ds fs ex @ r = a # l"
    using ds by (cases "literal ds fs ex @ r") (auto simp: literal_def)
  have a: "a \<noteq> 0x2D"
    using ds al by (cases ds) (auto simp: literal_def)
  have nb: "number_body neg (a # l)
              = Some (mk_number neg ds fs (case ex of None \<Rightarrow> 0 | Some x \<Rightarrow> x), r)"
    using number_body_literal [OF assms, of neg ex] unfolding al .
  show ?thesis
    using nb by (cases neg) (simp_all add: parse_number_def js_def al a)
qed


lemma mk_number_canonical:
  "0 < m \<Longrightarrow> m mod 10 \<noteq> 0 \<Longrightarrow> digits_val (ds @ fs) = m * 10 ^ j \<Longrightarrow>
   ex - int (length fs) + int j = e \<Longrightarrow> mk_number neg ds fs ex = Dec neg m e"
  by (simp add: mk_number_def strip10_canonical)

lemma Number_toString_unfold:
  assumes "0 < m" and "s = decimal m" and "k = int (length s)" and "n = k + e"
  shows "Number_toString (Dec neg m e) =
     (if neg then js ''-'' else []) @
       (if k \<le> n \<and> n \<le> 21 then s @ replicate (nat (n - k)) (digit 0)
        else if 0 < n \<and> n \<le> 21 then take (nat n) s @ js ''.'' @ drop (nat n) s
        else if - 6 < n \<and> n \<le> 0 then js ''0.'' @ replicate (nat (- n)) (digit 0) @ s
        else if k = 1 then s @ exponent_part (n - 1)
        else take 1 s @ js ''.'' @ drop 1 s @ exponent_part (n - 1))"
  unfolding assms(2-4) using assms(1)
  by (simp add: Number_toString_def Let_def exponent_part_def)

lemma Number_toString_literal:
  assumes m: "0 < m" "m mod 10 \<noteq> 0"
  shows "\<exists>ds fs ex.
           Number_toString (Dec neg m e) = (if neg then js ''-'' else []) @ literal ds fs ex
           \<and> ds \<noteq> [] \<and> (\<forall>c \<in> set ds. is_digit c) \<and> (\<forall>c \<in> set fs. is_digit c)
           \<and> (ds = [0x30] \<or> hd ds \<noteq> 0x30)
           \<and> mk_number neg ds fs (case ex of None \<Rightarrow> 0 | Some x \<Rightarrow> x) = Dec neg m e"
proof -
  define s where "s = decimal m"
  define k where "k = int (length s)"
  define n where "n = k + e"
  have s: "s \<noteq> []" "\<forall>c \<in> set s. is_digit c" "hd s \<noteq> 0x30" "digits_val s = m"
    using m by (simp_all add: s_def hd_decimal)
  have k: "1 \<le> k" using s(1) by (cases s) (simp_all add: k_def)
  let ?sign = "if neg then js ''-'' else []"
  note U = Number_toString_unfold [OF m(1) s_def k_def n_def, of neg]
  have tk: "\<forall>c \<in> set (take i s). is_digit c" "\<forall>c \<in> set (drop i s). is_digit c" for i
    using s(2) by (auto dest: in_set_takeD in_set_dropD)
  consider (A) "k \<le> n" "n \<le> 21"
    | (B) "\<not> (k \<le> n \<and> n \<le> 21)" "0 < n" "n \<le> 21"
    | (C) "\<not> (0 < n \<and> n \<le> 21)" "- 6 < n" "n \<le> 0"
    | (D) "\<not> (k \<le> n \<and> n \<le> 21)" "\<not> (0 < n \<and> n \<le> 21)" "\<not> (- 6 < n \<and> n \<le> 0)" "k = 1"
    | (E) "\<not> (k \<le> n \<and> n \<le> 21)" "\<not> (0 < n \<and> n \<le> 21)" "\<not> (- 6 < n \<and> n \<le> 0)" "k \<noteq> 1"
    by linarith
  then show ?thesis
  proof cases
    case A
    let ?ds = "s @ replicate (nat (n - k)) (digit 0)"
    have p: "Number_toString (Dec neg m e) = ?sign @ literal ?ds [] None"
      using A by (simp add: U literal_def)
    have v: "mk_number neg ?ds [] 0 = Dec neg m e"
      using m A by (intro mk_number_canonical [where j = "nat (n - k)"])
        (simp_all add: digits_val_append s n_def)
    have "?ds \<noteq> []" "\<forall>c \<in> set ?ds. is_digit c" "hd ?ds \<noteq> 0x30"
      using s by auto
    with p v show ?thesis by (intro exI [of _ ?ds] exI [of _ "[]"] exI [of _ None]) simp
  next
    case B
    then have nk: "n < k" by linarith
    let ?ds = "take (nat n) s" and ?fs = "drop (nat n) s"
    have ne: "?ds \<noteq> []" "?fs \<noteq> []" using B nk s(1) by (auto simp: k_def)
    have p: "Number_toString (Dec neg m e) = ?sign @ literal ?ds ?fs None"
      using B ne by (simp add: U literal_def)
    have v: "mk_number neg ?ds ?fs 0 = Dec neg m e"
      using m B nk by (intro mk_number_canonical [where j = 0])
        (auto simp: s n_def k_def)
    have "hd ?ds \<noteq> 0x30" using s(3) B by (cases s) (auto simp: take_Cons')
    with p v ne tk show ?thesis
      by (intro exI [of _ ?ds] exI [of _ ?fs] exI [of _ None]) simp
  next
    case C
    let ?fs = "replicate (nat (- n)) (digit 0) @ s"
    have p: "Number_toString (Dec neg m e) = ?sign @ literal (js ''0'') ?fs None"
      using C k s(1) by (simp add: U literal_def js_def)
    have z: "digits_val [0x30] = 0" by (simp add: digits_val_def)
    have j0: "js ''0'' = [0x30]" by (simp add: js_def)
    have "digits_val (js ''0'' @ ?fs) = m"
      unfolding j0 digits_val_append by (simp add: z s)
    then have v: "mk_number neg (js ''0'') ?fs 0 = Dec neg m e"
      using m C by (intro mk_number_canonical [where j = 0]) (auto simp: n_def k_def)
    have "\<forall>c \<in> set ?fs. is_digit c" using s(2) by auto
    with p v show ?thesis
      by (intro exI [of _ "js ''0''"] exI [of _ ?fs] exI [of _ None]) (simp add: js_def)
  next
    case D
    have p: "Number_toString (Dec neg m e) = ?sign @ literal s [] (Some (n - 1))"
      using D by (auto simp: U literal_def)
    have v: "mk_number neg s [] (n - 1) = Dec neg m e"
      using m D by (intro mk_number_canonical [where j = 0]) (auto simp: s n_def)
    from p v s show ?thesis
      by (intro exI [of _ s] exI [of _ "[]"] exI [of _ "Some (n - 1)"]) simp
  next
    case E
    with k have k2: "2 \<le> k" by linarith
    let ?ds = "take 1 s" and ?fs = "drop 1 s"
    have ne: "?ds \<noteq> []" "?fs \<noteq> []" using k2 s(1) by (auto simp: k_def)
    have p: "Number_toString (Dec neg m e) = ?sign @ literal ?ds ?fs (Some (n - 1))"
      using E ne by (auto simp: U literal_def)
    have v: "mk_number neg ?ds ?fs (n - 1) = Dec neg m e"
      using m k2 by (intro mk_number_canonical [where j = 0]) (auto simp: s n_def k_def)
    have "hd ?ds \<noteq> 0x30" using s(3) by (cases s) auto
    with p v ne tk show ?thesis
      by (intro exI [of _ ?ds] exI [of _ ?fs] exI [of _ "Some (n - 1)"]) simp
  qed
qed



lemma literal_zero: "js ''0'' = literal [0x30] [] None"
  by (simp add: literal_def js_def)

lemma mk_number_zero: "mk_number neg [0x30] [] 0 = Dec neg 0 0"
  by (simp add: mk_number_def digits_val_def strip10.simps)

lemma proper_number_cases:
  assumes "proper_number x"
  obtains "x = Dec False 0 0"
  | neg m e where "x = Dec neg m e" "0 < m" "m mod 10 \<noteq> 0"
  using assms by (cases x) (auto simp: proper_number_def split: if_splits)

lemma parse_number_toString:
  assumes "proper_number x" and "number_end r"
  shows "parse_number (Number_toString x @ r) = Some (x, r)"
  using assms(1)
proof (cases rule: proper_number_cases)
  case 1
  have "Number_toString x = [] @ literal [0x30] [] None"
    by (simp add: 1 Number_toString_def literal_zero)
  then show ?thesis
    using parse_number_literal [of "[0x30]" "[]" r False None] assms(2)
    by (simp add: mk_number_zero 1)
next
  case (2 neg m e)
  from Number_toString_literal [OF 2(2,3), of neg e] obtain ds fs ex where
    p: "Number_toString (Dec neg m e) = (if neg then js ''-'' else []) @ literal ds fs ex"
    and d: "ds \<noteq> []" "\<forall>c \<in> set ds. is_digit c" "\<forall>c \<in> set fs. is_digit c"
      "ds = [0x30] \<or> hd ds \<noteq> 0x30"
    and v: "mk_number neg ds fs (case ex of None \<Rightarrow> 0 | Some x \<Rightarrow> x) = Dec neg m e"
    by blast
  show ?thesis
    using parse_number_literal [OF d assms(2), of neg ex] by (simp add: 2(1) p v)
qed




subsection \<open>The overlay control\<close>









subsection \<open>Writing and reading strings\<close>

lemma hex4_value:
  "((n div 4096 * 16 + n div 256 mod 16) * 16 + n div 16 mod 16) * 16 + n mod 16 = (n::nat)"
proof -
  have a: "n div 4096 = n div 256 div 16" by (simp add: div_mult2_eq [symmetric])
  have b: "n div 256 = n div 16 div 16" by (simp add: div_mult2_eq [symmetric])
  have "((n div 4096 * 16 + n div 256 mod 16) * 16 + n div 16 mod 16) * 16 + n mod 16
        = ((n div 256 div 16 * 16 + n div 256 mod 16) * 16 + n div 16 mod 16) * 16 + n mod 16"
    by (simp only: a)
  also have "\<dots> = (n div 256 * 16 + n div 16 mod 16) * 16 + n mod 16"
    by (simp only: div_mult_mod_eq)
  also have "\<dots> = (n div 16 div 16 * 16 + n div 16 mod 16) * 16 + n mod 16"
    by (simp only: b)
  also have "\<dots> = n div 16 * 16 + n mod 16"
    by (simp only: div_mult_mod_eq)
  also have "\<dots> = n"
    by (simp only: div_mult_mod_eq)
  finally show ?thesis .
qed

lemma unat_hexdigit: "d < 16 \<Longrightarrow> unat (hexdigit d) = (if d < 10 then 48 + d else 87 + d)"
  by (simp only: hexdigit_def unat_of_nat split: if_splits) simp

lemma hexval_hexdigit [simp]: "d < 16 \<Longrightarrow> hexval (hexdigit d) = Some d"
  using unat_hexdigit [of d]
  by (auto simp: hexval_def word_le_nat_alt)

lemma unat_lt_16bit: "unat (c :: code_unit) < 65536"
proof -
  have "unat c < 2 ^ LENGTH(16)" by (rule unsigned_less)
  then show ?thesis by simp
qed

lemma parse_string_unicode_escape:
  "parse_string (unicode_escape c @ rest) = map_option (\<lambda>(s, r'). (c # s, r')) (parse_string rest)"
proof -
  have d: "unat c div 4096 < 16" "unat c div 256 mod 16 < 16" "unat c div 16 mod 16 < 16"
    "unat c mod 16 < 16"
    using unat_lt_16bit [of c] by simp_all
  have v: "hex4 (unat c div 4096) (unat c div 256 mod 16) (unat c div 16 mod 16) (unat c mod 16) = c"
    by (simp only: hex4_def hex4_value) simp
  show ?thesis
    by (simp add: unicode_escape_def Let_def d v)
qed


lemma parse_string_raw:
  "c \<noteq> 0x22 \<Longrightarrow> c \<noteq> 0x5C \<Longrightarrow> \<not> c < 0x20 \<Longrightarrow>
   parse_string (c # rest) = map_option (\<lambda>(s, r'). (c # s, r')) (parse_string rest)"
  by simp

lemma parse_string_quote_unit:
  "parse_string (quote_unit c @ rest) = map_option (\<lambda>(s, r'). (c # s, r')) (parse_string rest)"
  by (simp add: quote_unit_def parse_string_unicode_escape unescape_def)

lemma surrogate_raw:
  assumes "is_high_surrogate c \<or> is_low_surrogate c"
  shows "c \<noteq> 0x22" "c \<noteq> 0x5C" "\<not> c < 0x20"
  using assms by (auto simp: is_high_surrogate_def is_low_surrogate_def word_le_nat_alt word_less_nat_alt)

lemma parse_string_quote_units:
  "parse_string (quote_units s @ 0x22 # r) = Some (s, r)"
proof (induction s rule: quote_units.induct)
  case 1
  show ?case by simp
next
  case (2 c)
  show ?case
    by (simp add: parse_string_unicode_escape parse_string_quote_unit del: parse_string.simps)
       simp
next
  case (3 c d cs)
  show ?case
  proof (cases "is_high_surrogate c")
    case True
    show ?thesis
    proof (cases "is_low_surrogate d")
      case low: True
      have "parse_string (c # d # quote_units cs @ 0x22 # r) = Some (c # d # cs, r)"
        using surrogate_raw [of c] surrogate_raw [of d] True low 3(1)
        by (simp add: parse_string_raw del: parse_string.simps)
      with True low show ?thesis by simp
    next
      case False
      with True 3(2) show ?thesis
        by (simp add: parse_string_unicode_escape del: parse_string.simps)
    qed
  next
    case False
    with 3(3,4) show ?thesis
      by (cases "is_low_surrogate c")
         (simp_all add: parse_string_unicode_escape parse_string_quote_unit del: parse_string.simps)
  qed
qed

lemma parse_string_Quote:
  "QuoteJSONString s @ r = 0x22 # t \<Longrightarrow> parse_string t = Some (s, r)"
  by (auto simp: QuoteJSONString_def parse_string_quote_units)

subsection \<open>Writing and reading values\<close>

lemma is_digit_start: "is_digit c \<Longrightarrow> value_start c \<and> c \<noteq> 0x7B \<and> c \<noteq> 0x5B \<and> c \<noteq> 0x22 \<and> c \<noteq> 0x74 \<and> c \<noteq> 0x66 \<and> c \<noteq> 0x6E \<and> c \<noteq> 0x2D"
  by (auto simp: is_digit_def value_start_def is_ws_def)

lemma Number_toString_head:
  assumes "proper_number x"
  shows "\<exists>c t. Number_toString x = c # t \<and> (c = 0x2D \<or> is_digit c)"
  using assms
proof (cases rule: proper_number_cases)
  case 1
  then show ?thesis by (simp add: Number_toString_def js_def)
next
  case (2 neg m e)
  from Number_toString_literal [OF 2(2,3), of neg e] obtain ds fs ex where
    p: "Number_toString (Dec neg m e) = (if neg then js ''-'' else []) @ literal ds fs ex"
    and d: "ds \<noteq> []" "\<forall>c \<in> set ds. is_digit c"
    by blast
  from d obtain a l where "ds = a # l" "is_digit a" by (cases ds) auto
  with p 2(1) show ?thesis by (cases neg) (auto simp: literal_def js_def)
qed

lemma skip_ws_start [simp]: "\<not> is_ws c \<Longrightarrow> skip_ws (c # s) = c # s"
  by (simp add: skip_ws_def)

lemma parse_value_number:
  assumes "proper_number x" and "number_end r"
  shows "parse_value (Number_toString x @ r) = Some (JNum x, r)"
proof -
  from Number_toString_head [OF assms(1)] obtain c t where
    ct: "Number_toString x = c # t" and c: "c = 0x2D \<or> is_digit c"
    by blast
  have c': "\<not> is_ws c" "c \<noteq> 0x7B" "c \<noteq> 0x5B" "c \<noteq> 0x22" "c \<noteq> 0x74" "c \<noteq> 0x66" "c \<noteq> 0x6E"
    using c is_digit_start [of c] by (auto simp: is_ws_def value_start_def)
  have "parse_number (c # t @ r) = Some (x, r)"
    using parse_number_toString [OF assms] by (simp add: ct)
  then show ?thesis
    using c' by (subst parse_value.simps) (simp add: ct js_def)
qed

lemma stringify_head:
  "wf_json v \<Longrightarrow> \<exists>c t. JSON_stringify v = c # t \<and> value_start c"
proof (cases v)
  case (JNum x)
  assume "wf_json v"
  with JNum have "proper_number x" by simp
  from Number_toString_head [OF this] obtain c t where
    "Number_toString x = c # t" "c = 0x2D \<or> is_digit c" by blast
  moreover have "\<exists>neg m e. x = Dec neg m e"
    using \<open>proper_number x\<close> by (cases x) (auto simp: proper_number_def)
  ultimately show ?thesis
    using JNum is_digit_start [of c] by (auto simp: value_start_def is_ws_def)
qed (auto simp: js_def value_start_def is_ws_def QuoteJSONString_def)


lemma number_end_delims [simp]:
  "number_end (0x5D # r)" "number_end (0x2C # r)" "number_end (0x7D # r)"
  by (simp_all add: number_end_def is_digit_def)

lemma update_fresh:
  "k \<notin> fst ` set acc \<Longrightarrow> AList.update k v acc = acc @ [(k, v)]"
  by (induction acc) auto

lemma stringify_roundtrip:
  "wf_json v \<Longrightarrow> number_end r \<Longrightarrow> parse_value (JSON_stringify v @ r) = Some (v, r)"
  "vs \<noteq> [] \<Longrightarrow> \<forall>v \<in> set vs. wf_json v \<Longrightarrow>
     parse_elements acc (stringify_elements vs @ 0x5D # r) = Some (JArr (acc @ vs), r)"
  "kvs \<noteq> [] \<Longrightarrow> \<forall>kv \<in> set kvs. wf_json (snd kv) \<Longrightarrow> distinct (map fst (acc' @ kvs)) \<Longrightarrow>
     parse_members acc' (stringify_members kvs @ 0x7D # r) = Some (JObj (acc' @ kvs), r)"
proof (induction v and vs and kvs arbitrary: r and acc r and acc' r
    rule: JSON_stringify_stringify_elements_stringify_members.induct)
  case 1
  show ?case by (subst parse_value.simps) (simp add: js_def is_ws_def)
next
  case (2 b)
  show ?case by (subst parse_value.simps) (simp add: js_def is_ws_def)
next
  case (3 x)
  then have p: "proper_number x" by simp
  then have "JSON_stringify (JNum x) = Number_toString x"
    by (cases x) (auto simp: proper_number_def)
  with parse_value_number [OF p 3(2)] show ?case by simp
next
  case (4 s)
  have "parse_string (quote_units s @ 0x22 # r) = Some (s, r)"
    by (rule parse_string_quote_units)
  then show ?case
    by (subst parse_value.simps) (simp add: QuoteJSONString_def is_ws_def)
next
  case (5 vs)
  show ?case
  proof (cases "vs = []")
    case True
    then show ?thesis by (subst parse_value.simps) (simp add: js_def is_ws_def)
  next
    case False
    then obtain v vs' where vs: "vs = v # vs'" by (cases vs) auto
    with 5(2) have "wf_json v" by simp
    from stringify_head [OF this] obtain c t where ct: "JSON_stringify v = c # t" "value_start c"
      by blast
    then have "\<exists>t'. stringify_elements vs = c # t'"
      using vs by (cases vs') auto
    then obtain t' where t': "stringify_elements vs = c # t'" ..
    have e: "parse_elements [] (stringify_elements vs @ 0x5D # r) = Some (JArr ([] @ vs), r)"
      using False 5(2) by (intro 5(1)) auto
    show ?thesis
      using ct(2) e
      by (subst parse_value.simps) (simp add: js_def is_ws_def t' value_start_def)
  qed
next
  case (6 kvs)
  show ?case
  proof (cases "kvs = []")
    case True
    then show ?thesis by (subst parse_value.simps) (simp add: js_def is_ws_def)
  next
    case False
    then obtain k v kvs' where kvs: "kvs = (k, v) # kvs'" by (cases kvs) auto
    then have "\<exists>t'. stringify_members kvs = 0x22 # t'"
      by (cases kvs') (auto simp: QuoteJSONString_def)
    then obtain t' where t': "stringify_members kvs = 0x22 # t'" ..
    have e: "parse_members [] (stringify_members kvs @ 0x7D # r) = Some (JObj ([] @ kvs), r)"
      using False 6(2) by (intro 6(1)) auto
    show ?thesis
      using e
      by (subst parse_value.simps) (simp add: js_def is_ws_def t')
  qed
next
  case 7
  then show ?case by simp
next
  case (8 v)
  then have wf: "wf_json v" by simp
  from stringify_head [OF wf] obtain c t where ct: "JSON_stringify v = c # t" by blast
  have "parse_value (JSON_stringify v @ 0x5D # r) = Some (v, 0x5D # r)"
    using wf by (intro 8(1)) simp_all
  then show ?case
    by (subst parse_elements.simps) (simp add: ct is_ws_def)
next
  case (9 v w vs)
  then have wf: "wf_json v" by simp
  from stringify_head [OF wf] obtain c t where ct: "JSON_stringify v = c # t" by blast
  have a: "parse_value (JSON_stringify v @ 0x2C # stringify_elements (w # vs) @ 0x5D # r)
             = Some (v, 0x2C # stringify_elements (w # vs) @ 0x5D # r)"
    using wf by (intro 9(1)) simp_all
  have b: "parse_elements (acc @ [v]) (stringify_elements (w # vs) @ 0x5D # r)
             = Some (JArr ((acc @ [v]) @ w # vs), r)"
    using 9(4) by (intro 9(2)) simp_all
  show ?case
    using a b
    by (subst parse_elements.simps) (simp add: ct is_ws_def js_def)
next
  case 10
  then show ?case by simp
next
  case (11 k v)
  then have wf: "wf_json v" by simp
  from stringify_head [OF wf] obtain c t where ct: "JSON_stringify v = c # t" by blast
  have s: "parse_string (quote_units k @ 0x22 # 0x3A # JSON_stringify v @ 0x7D # r)
             = Some (k, 0x3A # JSON_stringify v @ 0x7D # r)"
    by (rule parse_string_quote_units)
  have a: "parse_value (JSON_stringify v @ 0x7D # r) = Some (v, 0x7D # r)"
    using wf by (intro 11(1)) simp_all
  have u: "AList.update k v acc' = acc' @ [(k, v)]"
    using 11(4) by (intro update_fresh) auto
  show ?case
    using s a u
    by (subst parse_members.simps) (simp add: QuoteJSONString_def is_ws_def js_def ct)
next
  case (12 k v kv kvs)
  then have wf: "wf_json v" by simp
  from stringify_head [OF wf] obtain c t where ct: "JSON_stringify v = c # t" by blast
  let ?rest = "stringify_members (kv # kvs) @ 0x7D # r"
  have s: "parse_string (quote_units k @ 0x22 # 0x3A # JSON_stringify v @ 0x2C # ?rest)
             = Some (k, 0x3A # JSON_stringify v @ 0x2C # ?rest)"
    by (rule parse_string_quote_units)
  have a: "parse_value (JSON_stringify v @ 0x2C # ?rest) = Some (v, 0x2C # ?rest)"
    using wf by (intro 12(1)) simp_all
  have u: "AList.update k v acc' = acc' @ [(k, v)]"
    using 12(5) by (intro update_fresh) auto
  have b: "parse_members (acc' @ [(k, v)]) ?rest = Some (JObj ((acc' @ [(k, v)]) @ kv # kvs), r)"
    using 12(4,5) by (intro 12(2)) simp_all
  show ?case
    using s a u b
    by (subst parse_members.simps) (simp add: QuoteJSONString_def is_ws_def js_def ct)
qed

subsection \<open>Saving and loading\<close>

lemma JSON_parse_stringify: "wf_json v \<Longrightarrow> JSON_parse (JSON_stringify v) = Inr v"
  using stringify_roundtrip(1) [of v "[]"]
  by (simp add: JSON_parse_def number_end_def skip_ws_def)


lemma state_keys_distinct:
  "distinct [js ''names'', js ''tagline'', js ''background'', js ''overlay'', js ''sections'']"
  "js ''title'' \<noteq> js ''tasks''" "js ''text'' \<noteq> js ''completed''"
  by (simp_all add: js_def)

lemma wf_state_json: "proper_number (overlay S) \<Longrightarrow> wf_json (state_json S)"
  using state_keys_distinct
  by (auto simp: state_json_def category_json_def task_json_def)

lemma proper_default [simp]: "proper_number (overlay defaultData)"
  by (simp add: defaultData_def proper_number_def)

lemma default_copy_eq: "default_copy = Normal (state_json defaultData)"
  by (simp add: default_copy_def JSON_parse_stringify wf_state_json)


text \<open>
  C2. When the item is absent from the store, or is a string that \<open>JSON.parse\<close>
  rejects, \<open>getData\<close> returns normally, with the JSON value of the default state: two
  categories titled Travel Adventures and Personal Goals, four tasks each, no task
  completed, overlay 0.6.
\<close>

theorem getData_falls_back:
  assumes "getItem (js ''coupleQuestData'') st = None
           \<or> (\<exists>s e. getItem (js ''coupleQuestData'') st = Some s \<and> JSON_parse s = Inl e)"
  shows "fst (getData st con) = Normal (state_json defaultData)
         \<and> map title (sections defaultData) = [js ''Travel Adventures'', js ''Personal Goals'']
         \<and> map (\<lambda>c. length (tasks c)) (sections defaultData) = [4, 4]
         \<and> (\<forall>c \<in> set (sections defaultData). \<forall>t \<in> set (tasks c). \<not> completed t)
         \<and> overlay defaultData = Dec False 6 (- 1)"
proof -
  have "fst (getData st con) = Normal (state_json defaultData)"
    using assms by (auto simp: getData_def default_copy_eq)
  moreover have "map title (sections defaultData) = [js ''Travel Adventures'', js ''Personal Goals'']"
    "map (\<lambda>c. length (tasks c)) (sections defaultData) = [4, 4]"
    "\<forall>c \<in> set (sections defaultData). \<forall>t \<in> set (tasks c). \<not> completed t"
    "overlay defaultData = Dec False 6 (- 1)"
    by (simp_all add: defaultData_def)
  ultimately show ?thesis by simp
qed

lemma parse_oops: "JSON_parse (js ''{oops'') = Inl SyntaxError"
  by code_simp






theorem getData_falls_back_witness:
  "getItem (js ''coupleQuestData'') empty_store = None
   \<and> fst (getData empty_store []) = Normal (state_json defaultData)
   \<and> getItem (js ''coupleQuestData'') corrupt_store = Some (js ''{oops'')
   \<and> JSON_parse (js ''{oops'') = Inl SyntaxError
   \<and> fst (getData corrupt_store []) = Normal (state_json defaultData)"
proof -
  have e: "getItem (js ''coupleQuestData'') empty_store = None"
    by (simp add: getItem_def empty_store_def)
  have c: "getItem (js ''coupleQuestData'') corrupt_store = Some (js ''{oops'')"
    by (simp add: getItem_def corrupt_store_def)
  have p: "JSON_parse (js ''{oops'') = Inl SyntaxError"
    by (rule parse_oops)
  have c': "\<exists>s e. getItem (js ''coupleQuestData'') corrupt_store = Some s \<and> JSON_parse s = Inl e"
    using c p by blast
  show ?thesis
    using e c p getData_falls_back [of empty_store "[]", OF disjI1, OF e]
      getData_falls_back [of corrupt_store "[]", OF disjI2, OF c']
    by simp
qed

end
